theory Spec2Isabelle
  imports Complex_Main "HOL-Library.Sublist"
begin

section \<open>The OTP ledger of the OTP authentication controller\<close>

text \<open>
  The controller keeps one module-level \<^verbatim>\<open>Map\<close> from phone numbers to entries
  \<^verbatim>\<open>{ otp, expiresAt }\<close>. The map is a partial function here, and every function that
  mutates it returns the new map. \<^verbatim>\<open>Date.now()\<close> (milliseconds) is the argument
  \<open>now\<close> of each function that reads the clock.
\<close>

record otp_entry =
  otp :: string
  expiresAt :: nat

type_synonym otp_store = "string \<rightharpoonup> otp_entry"

definition storeOTP :: "nat \<Rightarrow> string \<Rightarrow> string \<Rightarrow> otp_store \<Rightarrow> otp_store" where
  "storeOTP now phone_no code otpStore =
     otpStore(phone_no \<mapsto> \<lparr>otp = code, expiresAt = now + 5 * 60 * 1000\<rparr>)"

text \<open>The callback that \<^verbatim>\<open>storeOTP\<close> schedules with \<^verbatim>\<open>setTimeout\<close>, run at time \<open>now\<close>.\<close>

definition storeOTP_timeout :: "nat \<Rightarrow> string \<Rightarrow> otp_store \<Rightarrow> otp_store" where
  "storeOTP_timeout now phone_no otpStore =
     (case otpStore phone_no of
        None \<Rightarrow> otpStore
      | Some storedData \<Rightarrow>
          if expiresAt storedData \<le> now then otpStore(phone_no := None) else otpStore)"

definition verifyOTP :: "nat \<Rightarrow> string \<Rightarrow> string \<Rightarrow> otp_store \<Rightarrow> bool \<times> otp_store" where
  "verifyOTP now phone_no code otpStore =
     (case otpStore phone_no of
        None \<Rightarrow> (False, otpStore)
      | Some storedData \<Rightarrow>
          if expiresAt storedData \<le> now then (False, otpStore(phone_no := None))
          else if otp storedData \<noteq> code then (False, otpStore)
          else (True, otpStore(phone_no := None)))"


fun exponent_search :: "nat \<Rightarrow> int \<Rightarrow> real \<Rightarrow> int" where
  "exponent_search 0 q x = q"
| "exponent_search (Suc n) q x =
     (if 2 powi (q + 52) \<le> x then q else exponent_search n (q - 1) x)"

definition ulp_exponent :: "real \<Rightarrow> int" where
  "ulp_exponent x = exponent_search 2045 971 x"



definition digit_char :: "nat \<Rightarrow> char" where
  "digit_char d = ''0123456789'' ! d"

function toString :: "nat \<Rightarrow> string" where
  "toString n =
     (if n < 10 then [digit_char n] else toString (n div 10) @ [digit_char (n mod 10)])"
  by pat_completeness auto
termination
  by (relation "measure (\<lambda>n. n)") auto

declare toString.simps [simp del]


definition is_digit :: "char \<Rightarrow> bool" where
  "is_digit c = (c \<in> set ''0123456789'')"

definition is_letter :: "char \<Rightarrow> bool" where
  "is_letter c = (c \<in> set ''abcdefghijklmnopqrstuvwxyzABCDEFGHIJKLMNOPQRSTUVWXYZ'')"

text \<open>
  \<^verbatim>\<open>formatNepaliPhone\<close>: \<^verbatim>\<open>replace(/\D/g, '')\<close> keeps the digits, \<^verbatim>\<open>startsWith\<close> is
  \<open>prefix\<close>, \<^verbatim>\<open>substring(1)\<close> is \<open>tl\<close>.
\<close>

definition formatNepaliPhone :: "string \<Rightarrow> string" where
  "formatNepaliPhone phone_in =
     (let cleaned = filter is_digit phone_in in
      if prefix ''977'' cleaned then ''+'' @ cleaned
      else if prefix ''0'' cleaned then ''+977'' @ tl cleaned
      else if length cleaned = 10 then ''+977'' @ cleaned
      else phone_in)"

section \<open>Values, tokens and the environment\<close>

text \<open>
  A JavaScript value as far as the guards read one. \<open>truthy\<close> is the test of \<^verbatim>\<open>!v\<close> and
  \<^verbatim>\<open>if (v)\<close>; \<open>get\<close> reads a property, which is \<^verbatim>\<open>undefined\<close> when the object has no
  property of that name.
\<close>

datatype jsval = Undefined | Null | Str string | Num nat | Obj "(string \<times> jsval) list"

definition truthy :: "jsval \<Rightarrow> bool" where
  "truthy v =
     (case v of Undefined \<Rightarrow> False | Null \<Rightarrow> False | Str s \<Rightarrow> s \<noteq> [] | Num n \<Rightarrow> n \<noteq> 0
      | Obj kvs \<Rightarrow> True)"

definition get :: "jsval \<Rightarrow> string \<Rightarrow> jsval" where
  "get v k =
     (case v of
        Obj kvs \<Rightarrow> (case map_of kvs k of Some x \<Rightarrow> x | None \<Rightarrow> Undefined)
      | _ \<Rightarrow> Undefined)"

datatype js_error = JsonWebTokenError | TokenExpiredError | TypeError | QueryFailedError
  | Error string

text \<open>
  Tokens of the \<^verbatim>\<open>jsonwebtoken\<close> library, symbolically: a signed token is its payload,
  the secret it was signed with and its \<^verbatim>\<open>exp\<close> (seconds); any other string is
  \<open>Garbled\<close>. \<^verbatim>\<open>jwt.sign\<close> throws on a missing or empty secret; \<^verbatim>\<open>jwt.verify\<close> throws
  \<^verbatim>\<open>JsonWebTokenError\<close> on a malformed token, a missing secret or a wrong signature and
  \<^verbatim>\<open>TokenExpiredError\<close> once the clock has reached \<^verbatim>\<open>exp\<close>.
\<close>

record claims =
  claim_id :: string
  claim_role :: "string option"

datatype token = Signed claims string nat | Garbled string

datatype json = JNull | JString string | JBoolean bool | JToken token
  | JArray "json list" | JObject "(string \<times> json) list"

definition jwt_sign :: "claims \<Rightarrow> string option \<Rightarrow> nat \<Rightarrow> nat \<Rightarrow> js_error + token" where
  "jwt_sign payload secret expiresIn now =
     (case secret of
        None \<Rightarrow> Inl (Error ''secretOrPrivateKey must have a value'')
      | Some k \<Rightarrow>
          if k = [] then Inl (Error ''secretOrPrivateKey must have a value'')
          else Inr (Signed payload k (now div 1000 + expiresIn)))"

definition jwt_verify :: "token \<Rightarrow> string option \<Rightarrow> nat \<Rightarrow> js_error + claims" where
  "jwt_verify tok secret now =
     (case tok of
        Garbled s \<Rightarrow> Inl JsonWebTokenError
      | Signed payload k exp_at \<Rightarrow>
          (case secret of
             None \<Rightarrow> Inl JsonWebTokenError
           | Some k' \<Rightarrow>
               if k' = [] then Inl JsonWebTokenError
               else if k \<noteq> k' then Inl JsonWebTokenError
               else if exp_at \<le> now div 1000 then Inl TokenExpiredError
               else Inr payload))"

text \<open>\<^verbatim>\<open>process.env\<close>, and \<^verbatim>\<open>a || b\<close> on two of its entries.\<close>

record env =
  JWT_SECRET :: "string option"
  JWT_REFRESH_SECRET :: "string option"
  JWT_RESET_SECRET :: "string option"
  NODE_ENV :: "string option"

definition js_or :: "string option \<Rightarrow> string option \<Rightarrow> string option" where
  "js_or a b = (case a of None \<Rightarrow> b | Some s \<Rightarrow> if s = [] then b else Some s)"

text \<open>
  What a handler reads from outside the request: the environment, \<^verbatim>\<open>Date.now()\<close>, the
  uuid the database generates for a new row and the salt \<^verbatim>\<open>bcrypt\<close> draws.
\<close>

record runtime =
  rt_env :: env
  rt_now :: nat
  rt_uuid :: string
  rt_salt :: string

section \<open>The entities and the credential store\<close>

text \<open>
  A stored row has the columns the entity classes declare; \<^verbatim>\<open>role\<close> is the eagerly
  loaded relation, which the \<^verbatim>\<open>NOT NULL\<close> foreign key \<^verbatim>\<open>role_id\<close> keeps present.
  The timestamps are read by none of the functions below and are left out.
\<close>

record Role =
  role_id :: nat
  roleName :: string

record User =
  user_id :: string
  email :: string
  password_hash :: string
  fullName :: string
  phone :: "string option"
  role :: Role

record db =
  users :: "User list"
  roles :: "Role list"

definition findOne_email :: "db \<Rightarrow> string \<Rightarrow> User option" where
  "findOne_email d e = find (\<lambda>u. email u = e) (users d)"

definition findOne_phone :: "db \<Rightarrow> string \<Rightarrow> User option" where
  "findOne_phone d p = find (\<lambda>u. phone u = Some p) (users d)"

definition findOne_id :: "db \<Rightarrow> string \<Rightarrow> User option" where
  "findOne_id d i = find (\<lambda>u. user_id u = i) (users d)"

definition findOne_role :: "db \<Rightarrow> nat \<Rightarrow> Role option" where
  "findOne_role d i = find (\<lambda>r. role_id r = i) (roles d)"

definition ROLES_ADMIN :: nat where
  "ROLES_ADMIN = 1"

definition ROLES_PSR :: nat where
  "ROLES_PSR = 2"

text \<open>
  The entity as a JavaScript object: its keys are the property names of the class
  (\<^verbatim>\<open>roleName\<close>, \<^verbatim>\<open>fullName\<close>), not the column names (\<^verbatim>\<open>role_name\<close>, \<^verbatim>\<open>full_name\<close>).
  \<^verbatim>\<open>password_hash\<close> is declared \<^verbatim>\<open>select: false\<close> and is absent unless selected.
\<close>

definition Role_object :: "Role \<Rightarrow> jsval" where
  "Role_object r = Obj [(''id'', Num (role_id r)), (''roleName'', Str (roleName r))]"

definition User_object :: "User \<Rightarrow> jsval" where
  "User_object u =
     Obj [(''id'', Str (user_id u)), (''email'', Str (email u)),
          (''fullName'', Str (fullName u)),
          (''phone'', (case phone u of None \<Rightarrow> Null | Some p \<Rightarrow> Str p)),
          (''roleId'', Num (role_id (role u))), (''role'', Role_object (role u))]"

text \<open>
  \<^verbatim>\<open>bcrypt\<close> is a parameter: \<open>bcrypt_hash B data saltRounds salt\<close> and
  \<open>bcrypt_compare B data encrypted\<close>.
\<close>

record bcrypt =
  bcrypt_hash :: "string \<Rightarrow> nat \<Rightarrow> string \<Rightarrow> string"
  bcrypt_compare :: "string \<Rightarrow> string \<Rightarrow> bool"

text \<open>
  The \<^verbatim>\<open>@BeforeInsert\<close>/\<^verbatim>\<open>@BeforeUpdate\<close> hook of \<^verbatim>\<open>User\<close>, on the field it rewrites.
  \<^verbatim>\<open>indexOf('$2b$') !== 0\<close> says that the value does not start with \<^verbatim>\<open>$2b$\<close>.
\<close>

definition hashPassword :: "bcrypt \<Rightarrow> string \<Rightarrow> string \<Rightarrow> string" where
  "hashPassword B salt pw =
     (if pw \<noteq> [] \<and> \<not> prefix ''$2b$'' pw then bcrypt_hash B pw 10 salt else pw)"

text \<open>
  \<^verbatim>\<open>userRepository.save\<close> of a new entity: the hook runs, then the row is inserted under
  the constraints that \<^verbatim>\<open>User\<close> declares (primary key, \<^verbatim>\<open>email\<close> unique and not null,
  \<^verbatim>\<open>role_id\<close> not null, the \<^verbatim>\<open>varchar\<close> lengths). A violated constraint is a
  \<^verbatim>\<open>QueryFailedError\<close>.
\<close>

definition save_new ::
  "bcrypt \<Rightarrow> runtime \<Rightarrow> db \<Rightarrow> string option \<Rightarrow> string \<Rightarrow> string \<Rightarrow> string option \<Rightarrow> Role option
     \<Rightarrow> js_error + (User \<times> db)" where
  "save_new B rt d email_in password_in fullName_in phone_in role_in =
     (case email_in of
        None \<Rightarrow> Inl QueryFailedError
      | Some e \<Rightarrow>
          (case role_in of
             None \<Rightarrow> Inl QueryFailedError
           | Some r \<Rightarrow>
               if findOne_email d e \<noteq> None \<or> findOne_id d (rt_uuid rt) \<noteq> None
                  \<or> 255 < length e \<or> 120 < length fullName_in
                  \<or> (case phone_in of None \<Rightarrow> False | Some p \<Rightarrow> 30 < length p)
               then Inl QueryFailedError
               else
                 (let user = \<lparr>user_id = rt_uuid rt, email = e,
                               password_hash = hashPassword B (rt_salt rt) password_in,
                               fullName = fullName_in, phone = phone_in, role = r\<rparr>
                  in Inr (user, d\<lparr>users := users d @ [user]\<rparr>))))"

text \<open>
  \<^verbatim>\<open>userRepository.save\<close> of a loaded entity whose \<^verbatim>\<open>password_hash\<close> was assigned: the
  hook runs, then the row of that id is updated.
\<close>

definition save_password :: "bcrypt \<Rightarrow> runtime \<Rightarrow> db \<Rightarrow> string \<Rightarrow> string \<Rightarrow> db" where
  "save_password B rt d i pw =
     d\<lparr>users :=
          map (\<lambda>u. if user_id u = i
                    then u\<lparr>password_hash := hashPassword B (rt_salt rt) pw\<rparr> else u)
            (users d)\<rparr>"

section \<open>Responses and request validation\<close>

text \<open>
  A handler either sends a response (status and JSON body) or hands an error to
  \<^verbatim>\<open>next\<close>. A middleware stops with one of these or calls \<^verbatim>\<open>next()\<close> with what it
  attached to the request.
\<close>

datatype result = Respond nat json | Next js_error

datatype 'a middleware = Stop result | Continue 'a

definition error_body :: "string \<Rightarrow> string \<Rightarrow> json" where
  "error_body err msg = JObject [(''error'', JString err), (''message'', JString msg)]"

text \<open>
  The \<^verbatim>\<open>express-validator\<close> chains of the routes. Every validator of a chain runs, and
  each one that fails adds an error (field and message) to \<^verbatim>\<open>validationResult(req)\<close>.
  A required body field is a string, an \<^verbatim>\<open>optional()\<close> one is \<open>None\<close> when absent.
  The library's own predicates \<^verbatim>\<open>isEmail\<close> and \<^verbatim>\<open>isMobilePhone\<close> are parameters.
\<close>

type_synonym validation_error = "string \<times> string"

definition errors_array :: "validation_error list \<Rightarrow> json" where
  "errors_array errors =
     JArray (map (\<lambda>(param, msg). JObject [(''msg'', JString msg), (''param'', JString param)])
               errors)"

definition check :: "bool \<Rightarrow> string \<Rightarrow> string \<Rightarrow> validation_error list" where
  "check ok param msg = (if ok then [] else [(param, msg)])"

record validator =
  isEmail :: "string \<Rightarrow> bool"
  isMobilePhone :: "string \<Rightarrow> bool"

definition registerValidators ::
  "validator \<Rightarrow> string \<Rightarrow> string \<Rightarrow> string \<Rightarrow> string option \<Rightarrow> nat option
     \<Rightarrow> validation_error list" where
  "registerValidators V email_in password_in fullName_in phone_in roleId_in =
     check (isEmail V email_in) ''email'' ''Please provide a valid email address''
     @ check (8 \<le> length password_in) ''password''
         ''Password must be at least 8 characters long''
     @ check (list_ex is_letter password_in) ''password''
         ''Password must contain at least one letter''
     @ check (list_ex is_digit password_in) ''password''
         ''Password must contain at least one number''
     @ check (fullName_in \<noteq> []) ''fullName'' ''Full name is required''
     @ check (2 \<le> length fullName_in \<and> length fullName_in \<le> 100) ''fullName''
         ''Full name must be between 2 and 100 characters''
     @ (case phone_in of
          None \<Rightarrow> []
        | Some p \<Rightarrow> check (isMobilePhone V p) ''phone'' ''Please provide a valid phone number'')
     @ (case roleId_in of
          None \<Rightarrow> []
        | Some n \<Rightarrow> check (1 \<le> n) ''roleId'' ''Role ID must be a positive integer'')"

definition changePasswordValidators :: "string \<Rightarrow> string \<Rightarrow> validation_error list" where
  "changePasswordValidators currentPassword newPassword =
     check (currentPassword \<noteq> []) ''currentPassword'' ''Current password is required''
     @ check (8 \<le> length newPassword) ''newPassword''
         ''New password must be at least 8 characters long''
     @ check (list_ex is_letter newPassword) ''newPassword''
         ''New password must contain at least one letter''
     @ check (list_ex is_digit newPassword) ''newPassword''
         ''New password must contain at least one number''
     @ check (newPassword \<noteq> currentPassword) ''newPassword''
         ''New password cannot be the same as current password''"

text \<open>
  The strength policy in the words of the specification: length at least 8, a letter and
  a digit.
\<close>

definition strength_policy :: "string \<Rightarrow> bool" where
  "strength_policy pw = (8 \<le> length pw \<and> (\<exists>c \<in> set pw. is_letter c) \<and> (\<exists>c \<in> set pw. is_digit c))"

section \<open>The authentication controller\<close>

text \<open>\<^verbatim>\<open>generateTokens({ id, role })\<close>, the same function in both controllers.\<close>

definition generateTokens :: "env \<Rightarrow> nat \<Rightarrow> string \<Rightarrow> Role \<Rightarrow> js_error + (token \<times> token)" where
  "generateTokens e now i r =
     (case jwt_sign \<lparr>claim_id = i, claim_role = Some (roleName r)\<rparr> (JWT_SECRET e) 3600 now of
        Inl err \<Rightarrow> Inl err
      | Inr access \<Rightarrow>
          (case jwt_sign \<lparr>claim_id = i, claim_role = None\<rparr>
                  (js_or (JWT_REFRESH_SECRET e) (JWT_SECRET e)) (7 * 24 * 3600) now of
             Inl err \<Rightarrow> Inl err
           | Inr refresh \<Rightarrow> Inr (access, refresh)))"

text \<open>
  \<^verbatim>\<open>register\<close>, from the creation of the entity on: \<open>role_in\<close> is the role the handler
  resolved, \<open>None\<close> when the default role is not in the table.
\<close>

definition register_create ::
  "bcrypt \<Rightarrow> runtime \<Rightarrow> string \<Rightarrow> string \<Rightarrow> string \<Rightarrow> string option \<Rightarrow> Role option \<Rightarrow> db
     \<Rightarrow> result \<times> db" where
  "register_create B rt email_in password_in fullName_in phone_in role_in d =
     (case save_new B rt d (Some email_in) password_in fullName_in phone_in role_in of
        Inl err \<Rightarrow> (Next err, d)
      | Inr (user, d') \<Rightarrow>
          (case generateTokens (rt_env rt) (rt_now rt) (user_id user) (role user) of
             Inl err \<Rightarrow> (Next err, d')
           | Inr (access, refresh) \<Rightarrow>
               (Respond 201
                  (JObject [(''message'', JString ''User registered successfully''),
                     (''user'', JObject [(''id'', JString (user_id user)),
                        (''email'', JString (email user)),
                        (''fullName'', JString (fullName user)),
                        (''role'', JString (roleName (role user)))]),
                     (''accessToken'', JToken access),
                     (''refreshToken'', JToken refresh)]), d')))"

definition register ::
  "bcrypt \<Rightarrow> runtime \<Rightarrow> validation_error list \<Rightarrow> string \<Rightarrow> string \<Rightarrow> string \<Rightarrow> string option
     \<Rightarrow> nat option \<Rightarrow> db \<Rightarrow> result \<times> db" where
  "register B rt errors email_in password_in fullName_in phone_in roleId_in d =
     (if errors \<noteq> [] then (Respond 400 (JObject [(''errors'', errors_array errors)]), d)
      else
        (case findOne_email d email_in of
           Some existingUser \<Rightarrow>
             (Respond 409 (error_body ''Conflict'' ''User with this email already exists''), d)
         | None \<Rightarrow>
             (case roleId_in of
                None \<Rightarrow>
                  register_create B rt email_in password_in fullName_in phone_in
                    (findOne_role d ROLES_PSR) d
              | Some n \<Rightarrow>
                  if n = 0 then
                    register_create B rt email_in password_in fullName_in phone_in
                      (findOne_role d ROLES_PSR) d
                  else
                    (case findOne_role d n of
                       None \<Rightarrow> (Respond 400 (error_body ''Bad Request'' ''Invalid role specified''), d)
                     | Some r \<Rightarrow>
                         register_create B rt email_in password_in fullName_in phone_in
                           (Some r) d))))"

definition login ::
  "bcrypt \<Rightarrow> runtime \<Rightarrow> validation_error list \<Rightarrow> string \<Rightarrow> string \<Rightarrow> db \<Rightarrow> result" where
  "login B rt errors email_in password_in d =
     (if errors \<noteq> [] then Respond 400 (JObject [(''errors'', errors_array errors)])
      else
        (case findOne_email d email_in of
           None \<Rightarrow> Respond 401 (error_body ''Unauthorized'' ''Invalid email or password'')
         | Some user \<Rightarrow>
             if \<not> bcrypt_compare B password_in (password_hash user)
             then Respond 401 (error_body ''Unauthorized'' ''Invalid email or password'')
             else
               (case generateTokens (rt_env rt) (rt_now rt) (user_id user) (role user) of
                  Inl err \<Rightarrow> Next err
                | Inr (access, refresh) \<Rightarrow>
                    Respond 200
                      (JObject [(''message'', JString ''Login successful''),
                         (''user'', JObject [(''id'', JString (user_id user)),
                            (''email'', JString (email user)),
                            (''fullName'', JString (fullName user)),
                            (''role'', JString (roleName (role user)))]),
                         (''accessToken'', JToken access),
                         (''refreshToken'', JToken refresh)]))))"

text \<open>
  \<^verbatim>\<open>refreshToken\<close>: the body field is absent (\<open>None\<close>), the empty string
  (\<open>Garbled []\<close>) or a token.
\<close>

definition refreshToken :: "runtime \<Rightarrow> token option \<Rightarrow> db \<Rightarrow> result" where
  "refreshToken rt refreshToken_in d =
     (case refreshToken_in of
        None \<Rightarrow> Respond 400 (error_body ''Bad Request'' ''Refresh token is required'')
      | Some tok \<Rightarrow>
          if tok = Garbled [] then
            Respond 400 (error_body ''Bad Request'' ''Refresh token is required'')
          else
            (case jwt_verify tok
                    (js_or (JWT_REFRESH_SECRET (rt_env rt)) (JWT_SECRET (rt_env rt)))
                    (rt_now rt) of
               Inl err \<Rightarrow>
                 Respond 401 (error_body ''Unauthorized'' ''Invalid or expired refresh token'')
             | Inr decoded \<Rightarrow>
                 (case findOne_id d (claim_id decoded) of
                    None \<Rightarrow> Respond 401 (error_body ''Unauthorized'' ''User not found'')
                  | Some user \<Rightarrow>
                      (case generateTokens (rt_env rt) (rt_now rt) (user_id user) (role user) of
                         Inl err \<Rightarrow> Next err
                       | Inr (access, refresh) \<Rightarrow>
                           Respond 200
                             (JObject [(''message'', JString ''Token refreshed successfully''),
                                (''accessToken'', JToken access),
                                (''refreshToken'', JToken refresh)])))))"

text \<open>
  \<^verbatim>\<open>changePassword\<close>: \<open>req_id\<close> is \<^verbatim>\<open>req.user.id\<close>. When no row has that id,
  \<^verbatim>\<open>user.password_hash\<close> throws a \<^verbatim>\<open>TypeError\<close>, which the handler passes on.
\<close>

definition changePassword ::
  "bcrypt \<Rightarrow> runtime \<Rightarrow> validation_error list \<Rightarrow> string \<Rightarrow> string \<Rightarrow> string \<Rightarrow> db
     \<Rightarrow> result \<times> db" where
  "changePassword B rt errors req_id currentPassword newPassword d =
     (if errors \<noteq> [] then (Respond 400 (JObject [(''errors'', errors_array errors)]), d)
      else
        (case findOne_id d req_id of
           None \<Rightarrow> (Next TypeError, d)
         | Some user \<Rightarrow>
             if \<not> bcrypt_compare B currentPassword (password_hash user)
             then (Respond 401 (error_body ''Unauthorized'' ''Current password is incorrect''), d)
             else
               (Respond 200 (JObject [(''message'', JString ''Password changed successfully'')]),
                save_password B rt d (user_id user) newPassword)))"

definition forgotPassword :: "runtime \<Rightarrow> string \<Rightarrow> db \<Rightarrow> result" where
  "forgotPassword rt email_in d =
     (case findOne_email d email_in of
        None \<Rightarrow>
          Respond 200
            (JObject [(''message'',
               JString ''If your email is registered, you will receive a password reset link'')])
      | Some user \<Rightarrow>
          (case jwt_sign \<lparr>claim_id = user_id user, claim_role = None\<rparr>
                  (js_or (JWT_RESET_SECRET (rt_env rt)) (JWT_SECRET (rt_env rt))) 3600
                  (rt_now rt) of
             Inl err \<Rightarrow> Next err
           | Inr resetToken \<Rightarrow>
               Respond 200
                 (JObject ([(''message'',
                    JString ''If your email is registered, you will receive a password reset link'')]
                    @ (if NODE_ENV (rt_env rt) \<noteq> Some ''production''
                       then [(''resetToken'', JToken resetToken)] else [])))))"

section \<open>The OTP authentication controller\<close>

text \<open>
  \<^verbatim>\<open>verifyOTPAndLogin\<close> on the ledger and the store. \<open>placeholder\<close> is the value of
  \<^verbatim>\<open>Math.random().toString(36).slice(-10)\<close>. The new account is created without an
  email, so \<open>save_new\<close> receives \<open>None\<close> for it.
\<close>

definition verifyOTPAndLogin ::
  "bcrypt \<Rightarrow> runtime \<Rightarrow> string \<Rightarrow> validation_error list \<Rightarrow> string \<Rightarrow> string \<Rightarrow> string option
     \<Rightarrow> otp_store \<times> db \<Rightarrow> result \<times> otp_store \<times> db" where
  "verifyOTPAndLogin B rt placeholder errors phone_in otp_in fullName_in state =
     (let otpStore = fst state; d = snd state in
      if errors \<noteq> [] then
        (Respond 400 (JObject [(''errors'', errors_array errors)]), otpStore, d)
      else
        (let formattedPhone = formatNepaliPhone phone_in;
             verified = verifyOTP (rt_now rt) formattedPhone otp_in otpStore;
             isValidOTP = fst verified;
             otpStore' = snd verified
         in
         if \<not> isValidOTP then
           (Respond 401
              (error_body ''Invalid OTP'' ''The verification code is invalid or has expired.''),
            otpStore', d)
         else
           (case findOne_phone d formattedPhone of
              Some user \<Rightarrow>
                (case generateTokens (rt_env rt) (rt_now rt) (user_id user) (role user) of
                   Inl err \<Rightarrow> (Next err, otpStore', d)
                 | Inr (access, refresh) \<Rightarrow>
                     (Respond 200
                        (JObject [(''message'', JString ''Authentication successful''),
                           (''user'', JObject [(''id'', JString (user_id user)),
                              (''phone'', (case phone user of None \<Rightarrow> JNull | Some p \<Rightarrow> JString p)),
                              (''fullName'', JString (fullName user)),
                              (''role'', JString (roleName (role user)))]),
                           (''accessToken'', JToken access),
                           (''refreshToken'', JToken refresh)]), otpStore', d))
            | None \<Rightarrow>
                (case fullName_in of
                   None \<Rightarrow>
                     (Respond 400
                        (JObject [(''error'', JString ''Registration Required''),
                           (''message'',
                            JString ''User not found. Please provide your full name to register.''),
                           (''requiresRegistration'', JBoolean True)]), otpStore', d)
                 | Some name \<Rightarrow>
                     if name = [] then
                       (Respond 400
                          (JObject [(''error'', JString ''Registration Required''),
                             (''message'',
                              JString ''User not found. Please provide your full name to register.''),
                             (''requiresRegistration'', JBoolean True)]), otpStore', d)
                     else
                       (case findOne_role d ROLES_PSR of
                          None \<Rightarrow>
                            (Respond 500
                               (error_body ''Server Error'' ''Could not assign user role.''),
                             otpStore', d)
                        | Some psrRole \<Rightarrow>
                            (case save_new B rt d None placeholder name (Some formattedPhone)
                                    (Some psrRole) of
                               Inl err \<Rightarrow> (Next err, otpStore', d)
                             | Inr (user, d') \<Rightarrow>
                                 (case generateTokens (rt_env rt) (rt_now rt) (user_id user)
                                         (role user) of
                                    Inl err \<Rightarrow> (Next err, otpStore', d')
                                  | Inr (access, refresh) \<Rightarrow>
                                      (Respond 200
                                         (JObject
                                            [(''message'', JString ''Authentication successful''),
                                             (''user'', JObject [(''id'', JString (user_id user)),
                                                (''phone'',
                                                 (case phone user of
                                                    None \<Rightarrow> JNull | Some p \<Rightarrow> JString p)),
                                                (''fullName'', JString (fullName user)),
                                                (''role'', JString (roleName (role user)))]),
                                             (''accessToken'', JToken access),
                                             (''refreshToken'', JToken refresh)]),
                                       otpStore', d'))))))))"

section \<open>The authentication and role middleware\<close>

text \<open>
  The \<^verbatim>\<open>Authorization\<close> header is absent (\<open>None\<close>) or a string, given by the pieces
  that \<^verbatim>\<open>split(' ')\<close> cuts it into: each piece is a token or some other string, and the
  empty header is the single empty piece. \<^verbatim>\<open>authMiddleware\<close> attaches \<^verbatim>\<open>req.user\<close>,
  whose \<^verbatim>\<open>fullName\<close> and \<^verbatim>\<open>role\<close> it reads from the entity as \<^verbatim>\<open>user.full_name\<close> and
  \<^verbatim>\<open>user.role.role_name\<close>.
\<close>

record req_user =
  req_user_id :: string
  req_user_email :: string
  req_user_fullName :: jsval
  req_user_role :: jsval

definition unauthorized :: "string \<Rightarrow> 'a middleware" where
  "unauthorized msg = Stop (Respond 401 (error_body ''Unauthorized'' msg))"

definition authMiddleware :: "env \<Rightarrow> nat \<Rightarrow> token list option \<Rightarrow> db \<Rightarrow> req_user middleware" where
  "authMiddleware e now authHeader d =
     (case authHeader of
        None \<Rightarrow> unauthorized ''Authentication required. No token provided.''
      | Some parts \<Rightarrow>
          if parts = [] \<or> parts = [Garbled []] then
            unauthorized ''Authentication required. No token provided.''
          else if length parts < 2 \<or> parts ! 1 = Garbled [] then
            unauthorized ''Invalid authentication format. Expected \"Bearer [token]\".''
          else
            (case jwt_verify (parts ! 1) (JWT_SECRET e) now of
               Inl err \<Rightarrow>
                 if err = JsonWebTokenError then
                   unauthorized ''Invalid authentication token.''
                 else if err = TokenExpiredError then
                   unauthorized ''Authentication token has expired. Please login again.''
                 else Stop (Next err)
             | Inr decoded \<Rightarrow>
                 (case findOne_id d (claim_id decoded) of
                    None \<Rightarrow> unauthorized ''User no longer exists or access has been revoked.''
                  | Some user \<Rightarrow>
                      Continue
                        \<lparr>req_user_id = user_id user,
                         req_user_email = email user,
                         req_user_fullName = get (User_object user) ''full_name'',
                         req_user_role = get (get (User_object user) ''role'') ''role_name''\<rparr>)))"

text \<open>
  \<^verbatim>\<open>rbacMiddleware(allowedRoles)\<close> on \<^verbatim>\<open>req.user\<close>, which is \<open>None\<close> when no
  middleware attached one.
\<close>

definition rbacMiddleware :: "string list \<Rightarrow> req_user option \<Rightarrow> req_user middleware" where
  "rbacMiddleware allowedRoles user_in =
     (case user_in of
        None \<Rightarrow>
          Stop (Respond 401
            (error_body ''Unauthorized'' ''Authentication required before role verification.''))
      | Some u \<Rightarrow>
          if \<not> truthy (req_user_role u) then
            Stop (Respond 401
              (error_body ''Unauthorized'' ''Authentication required before role verification.''))
          else if req_user_role u \<in> set (map Str allowedRoles) then Continue u
          else
            Stop (Respond 403
              (error_body ''Forbidden'' ''You do not have permission to access this resource.'')))"

definition adminOnly :: "req_user option \<Rightarrow> req_user middleware" where
  "adminOnly = rbacMiddleware [''admin'']"

text \<open>
  A role-gated route as the server mounts one:
  \<^verbatim>\<open>app.use('/api/reports', authMiddleware, rbacMiddleware(['admin']), reportRoutes)\<close>.
\<close>

definition role_gated_route ::
  "string list \<Rightarrow> env \<Rightarrow> nat \<Rightarrow> token list option \<Rightarrow> db \<Rightarrow> req_user middleware" where
  "role_gated_route allowedRoles e now authHeader d =
     (case authMiddleware e now authHeader d of
        Stop r \<Rightarrow> Stop r
      | Continue u \<Rightarrow> rbacMiddleware allowedRoles (Some u))"

section \<open>The routes with their validators\<close>

definition register_route ::
  "validator \<Rightarrow> bcrypt \<Rightarrow> runtime \<Rightarrow> string \<Rightarrow> string \<Rightarrow> string \<Rightarrow> string option \<Rightarrow> nat option
     \<Rightarrow> db \<Rightarrow> result \<times> db" where
  "register_route V B rt email_in password_in fullName_in phone_in roleId_in d =
     register B rt (registerValidators V email_in password_in fullName_in phone_in roleId_in)
       email_in password_in fullName_in phone_in roleId_in d"

definition change_password_route ::
  "bcrypt \<Rightarrow> runtime \<Rightarrow> token list option \<Rightarrow> string \<Rightarrow> string \<Rightarrow> db \<Rightarrow> result \<times> db" where
  "change_password_route B rt authHeader currentPassword newPassword d =
     (case authMiddleware (rt_env rt) (rt_now rt) authHeader d of
        Stop r \<Rightarrow> (r, d)
      | Continue u \<Rightarrow>
          changePassword B rt (changePasswordValidators currentPassword newPassword)
            (req_user_id u) currentPassword newPassword d)"

section \<open>A concrete installation for the examples\<close>

text \<open>
  A store with one administrator and one field representative, an environment with one
  signing secret, and a stand-in for \<^verbatim>\<open>bcrypt\<close> that keeps the salt in the first 11
  characters of the hash.
\<close>

definition admin_role :: Role where
  "admin_role = \<lparr>role_id = 1, roleName = ''admin''\<rparr>"

definition psr_role :: Role where
  "psr_role = \<lparr>role_id = 2, roleName = ''psr''\<rparr>"

definition toy_bcrypt :: bcrypt where
  "toy_bcrypt =
     \<lparr>bcrypt_hash = (\<lambda>data saltRounds salt. ''$2b$10$'' @ take 4 (salt @ ''....'') @ data),
      bcrypt_compare = (\<lambda>data encrypted. take 7 encrypted = ''$2b$10$'' \<and> drop 11 encrypted = data)\<rparr>"

definition alice :: User where
  "alice = \<lparr>user_id = ''u-alice'', email = ''alice@x.com'',
            password_hash = ''$2b$10$saltPassw0rd!'', fullName = ''Alice A'',
            phone = None, role = psr_role\<rparr>"

definition root_user :: User where
  "root_user = \<lparr>user_id = ''u-root'', email = ''root@x.com'',
            password_hash = ''$2b$10$saltAdm1nAdm1n'', fullName = ''Root R'',
            phone = Some ''+9779800000000'', role = admin_role\<rparr>"

definition example_db :: db where
  "example_db = \<lparr>users = [root_user, alice], roles = [admin_role, psr_role]\<rparr>"

definition example_env :: "string \<Rightarrow> env" where
  "example_env mode =
     \<lparr>JWT_SECRET = Some ''s3cret'', JWT_REFRESH_SECRET = None, JWT_RESET_SECRET = None,
      NODE_ENV = Some mode\<rparr>"

definition example_rt :: "string \<Rightarrow> runtime" where
  "example_rt mode =
     \<lparr>rt_env = example_env mode, rt_now = 5000000, rt_uuid = ''u-new'', rt_salt = ''pepr''\<rparr>"

definition any_validator :: validator where
  "any_validator = \<lparr>isEmail = (\<lambda>s. CHR ''@'' \<in> set s), isMobilePhone = (\<lambda>s. list_all is_digit s)\<rparr>"

definition alice_header :: "token list option" where
  "alice_header =
     Some [Garbled ''Bearer'',
           Signed \<lparr>claim_id = ''u-alice'', claim_role = Some ''psr''\<rparr> ''s3cret'' 8600]"

definition alice_req_user :: req_user where
  "alice_req_user =
     \<lparr>req_user_id = ''u-alice'', req_user_email = ''alice@x.com'',
      req_user_fullName = Undefined, req_user_role = Undefined\<rparr>"

section \<open>Properties of the OTP generator\<close>

lemma lt10_cases: "d < 10 \<Longrightarrow> d \<in> {0, 1, 2, 3, 4, 5, 6, 7, 8, 9::nat}"
  by auto

lemma digit_char_inj:
  assumes "a < 10" and "b < 10" and "digit_char a = digit_char b"
  shows "a = b"
proof -
  from assms(1) have "a \<in> {0, 1, 2, 3, 4, 5, 6, 7, 8, 9::nat}" by (rule lt10_cases)
  moreover from assms(2) have "b \<in> {0, 1, 2, 3, 4, 5, 6, 7, 8, 9::nat}" by (rule lt10_cases)
  ultimately show ?thesis
    using assms(3) by (auto simp: digit_char_def)
qed



lemma toString_nonempty: "toString n \<noteq> []"
  by (subst toString.simps) simp

lemma toString_nonempty': "[] \<noteq> toString n"
  using toString_nonempty [of n] by simp




lemma toString_inj: "toString n = toString m \<Longrightarrow> n = m"
proof (induction n arbitrary: m rule: toString.induct)
  case (1 n)
  show ?case
  proof (cases "n < 10")
    case n: True
    show ?thesis
    proof (cases "m < 10")
      case True
      with n 1(2) show ?thesis
        using digit_char_inj [of n m] by (simp add: toString.simps [of n] toString.simps [of m])
    next
      case False
      with n 1(2) show ?thesis
        by (simp add: toString.simps [of n] toString.simps [of m] toString_nonempty toString_nonempty')
    qed
  next
    case n: False
    show ?thesis
    proof (cases "m < 10")
      case True
      with n 1(2) show ?thesis
        by (simp add: toString.simps [of n] toString.simps [of m] toString_nonempty toString_nonempty')
    next
      case False
      with n 1(2) have "toString (n div 10) = toString (m div 10)"
          and d: "digit_char (n mod 10) = digit_char (m mod 10)"
        by (simp_all add: toString.simps [of n] toString.simps [of m])
      with 1(1) n have "n div 10 = m div 10" by simp
      moreover from d have "n mod 10 = m mod 10"
        using digit_char_inj [of "n mod 10" "m mod 10"] by simp
      ultimately show ?thesis
        by (metis div_mult_mod_eq)
    qed
  qed
qed







lemma exponent_search_bottom:
  "x < 2 powi (q - int n + 53) \<Longrightarrow> exponent_search n q x = q - int n"
proof (induction n arbitrary: q)
  case 0
  then show ?case by simp
next
  case (Suc n)
  have "(2::real) powi (q - int (Suc n) + 53) \<le> 2 powi (q + 52)"
    by (rule power_int_increasing) simp_all
  with Suc.prems have "\<not> 2 powi (q + 52) \<le> x" by linarith
  moreover from Suc.prems have "x < 2 powi (q - 1 - int n + 53)" by (simp add: algebra_simps)
  ultimately show ?case using Suc.IH [of "q - 1"] by simp
qed


lemma ulp_exponent_bottom: "x < 2 powi (- 1021) \<Longrightarrow> ulp_exponent x = - 1074"
  unfolding ulp_exponent_def using exponent_search_bottom [of x 971 2045] by simp


























section \<open>Properties of the OTP ledger\<close>

text \<open>
  C3. For every ledger, phone and code, \<open>verifyOTP\<close> answers true exactly when the ledger
  has an entry for the phone that has not expired and whose code is the supplied one. On
  every true answer the entry is gone from the ledger that is returned, so a second
  verification of the same phone and code on that ledger, at whatever time, answers false.
\<close>

theorem verifyOTP_true_iff_and_single_use:
  "(fst (verifyOTP now phone_no code otpStore) \<longleftrightarrow>
      (\<exists>e. otpStore phone_no = Some e \<and> \<not> expiresAt e \<le> now \<and> otp e = code))
   \<and> (fst (verifyOTP now phone_no code otpStore) \<longrightarrow>
        snd (verifyOTP now phone_no code otpStore) phone_no = None
      \<and> \<not> fst (verifyOTP now' phone_no code (snd (verifyOTP now phone_no code otpStore))))"
  by (auto simp: verifyOTP_def split: option.splits)

theorem verifyOTP_true_iff_and_single_use_witness:
  "fst (verifyOTP 1000 ''+9779812345678'' ''482913''
          (storeOTP 0 ''+9779812345678'' ''482913'' Map.empty))
   \<and> snd (verifyOTP 1000 ''+9779812345678'' ''482913''
          (storeOTP 0 ''+9779812345678'' ''482913'' Map.empty)) ''+9779812345678'' = None
   \<and> \<not> fst (verifyOTP 2000 ''+9779812345678'' ''482913''
          (snd (verifyOTP 1000 ''+9779812345678'' ''482913''
             (storeOTP 0 ''+9779812345678'' ''482913'' Map.empty))))"
  using verifyOTP_true_iff_and_single_use
    [of 1000 "''+9779812345678''" "''482913''"
        "storeOTP 0 ''+9779812345678'' ''482913'' Map.empty" 2000]
  by (simp add: storeOTP_def)

text \<open>
  C10. When the ledger holds an unexpired entry for the phone and the supplied code is not
  the stored one, \<open>verifyOTP\<close> answers false and returns the ledger as it was; a later
  verification with the stored code, at any time before the entry expires, answers true.
  Whenever a false answer removes an entry, that entry had expired.
\<close>

theorem verifyOTP_wrong_code_keeps_entry:
  "(otpStore phone_no = Some e \<and> \<not> expiresAt e \<le> now \<and> otp e \<noteq> code \<longrightarrow>
      verifyOTP now phone_no code otpStore = (False, otpStore)
    \<and> (\<forall>now'. \<not> expiresAt e \<le> now' \<longrightarrow>
          fst (verifyOTP now' phone_no (otp e) (snd (verifyOTP now phone_no code otpStore)))))
   \<and> (otpStore phone_no = Some e \<and> \<not> fst (verifyOTP now phone_no code otpStore)
        \<and> snd (verifyOTP now phone_no code otpStore) phone_no = None \<longrightarrow>
      expiresAt e \<le> now)"
  by (auto simp: verifyOTP_def split: option.splits if_splits)

theorem verifyOTP_wrong_code_keeps_entry_witness:
  "verifyOTP 1000 ''+9779812345678'' ''000000''
       (storeOTP 0 ''+9779812345678'' ''482913'' Map.empty)
     = (False, storeOTP 0 ''+9779812345678'' ''482913'' Map.empty)
   \<and> fst (verifyOTP 299999 ''+9779812345678'' ''482913''
       (snd (verifyOTP 1000 ''+9779812345678'' ''000000''
          (storeOTP 0 ''+9779812345678'' ''482913'' Map.empty))))"
proof -
  let ?st = "storeOTP 0 ''+9779812345678'' ''482913'' Map.empty"
  let ?e = "\<lparr>otp = ''482913'', expiresAt = 300000\<rparr>"
  have h: "?st ''+9779812345678'' = Some ?e \<and> \<not> expiresAt ?e \<le> 1000 \<and> otp ?e \<noteq> ''000000''"
    by (simp add: storeOTP_def)
  have late: "\<not> expiresAt ?e \<le> 299999"
    by simp
  from verifyOTP_wrong_code_keeps_entry [of ?st "''+9779812345678''" ?e 1000 "''000000''"] h
  have "verifyOTP 1000 ''+9779812345678'' ''000000'' ?st = (False, ?st)
      \<and> (\<forall>now'. \<not> expiresAt ?e \<le> now' \<longrightarrow>
            fst (verifyOTP now' ''+9779812345678'' (otp ?e)
                   (snd (verifyOTP 1000 ''+9779812345678'' ''000000'' ?st))))"
    by blast
  with late show ?thesis
    by (metis otp_entry.select_convs(1))
qed

section \<open>Properties of the authentication controller\<close>

lemma jwt_verify_Inr:
  "jwt_verify tok secret now = Inr c \<Longrightarrow>
     \<exists>k exp_at. tok = Signed c k exp_at \<and> secret = Some k \<and> k \<noteq> [] \<and> \<not> exp_at \<le> now div 1000"
  by (auto simp: jwt_verify_def split: token.splits option.splits if_splits)

lemma generateTokens_ok:
  "JWT_SECRET e = Some secret \<Longrightarrow> secret \<noteq> [] \<Longrightarrow>
   generateTokens e now i r =
     Inr (Signed \<lparr>claim_id = i, claim_role = Some (roleName r)\<rparr> secret (now div 1000 + 3600),
          Signed \<lparr>claim_id = i, claim_role = None\<rparr>
            (case JWT_REFRESH_SECRET e of None \<Rightarrow> secret | Some s \<Rightarrow> if s = [] then secret else s)
            (now div 1000 + 7 * 24 * 3600))"
  by (auto simp: generateTokens_def jwt_sign_def js_or_def split: option.splits)

lemma find_user_id: "find (\<lambda>u. user_id u = i) xs = Some u \<Longrightarrow> user_id u = i"
  by (auto simp: find_Some_iff)

lemma findOne_id_user_id: "findOne_id d i = Some u \<Longrightarrow> user_id u = i"
  unfolding findOne_id_def by (rule find_user_id)

text \<open>
  C1. For every refresh request whose token verifies under the refresh secret at the
  current time and whose subject is the id of a stored account, the response is 200 and
  its access token carries the id of that account and the role name stored with the
  account at the time of the refresh; the payload of the presented token does not enter
  into it. The refresh token issued with it carries the id and no role.
\<close>

theorem refreshToken_role_from_store:
  assumes verified: "jwt_verify tok (js_or (JWT_REFRESH_SECRET (rt_env rt)) (JWT_SECRET (rt_env rt)))
             (rt_now rt) = Inr decoded"
    and found: "findOne_id d (claim_id decoded) = Some user"
    and secret: "JWT_SECRET (rt_env rt) = Some secret" "secret \<noteq> []"
  shows "\<exists>k. js_or (JWT_REFRESH_SECRET (rt_env rt)) (JWT_SECRET (rt_env rt)) = Some k
     \<and> refreshToken rt (Some tok) d =
       Respond 200
         (JObject [(''message'', JString ''Token refreshed successfully''),
            (''accessToken'',
             JToken (Signed \<lparr>claim_id = claim_id decoded, claim_role = Some (roleName (role user))\<rparr>
                       secret (rt_now rt div 1000 + 3600))),
            (''refreshToken'',
             JToken (Signed \<lparr>claim_id = claim_id decoded, claim_role = None\<rparr>
                       k (rt_now rt div 1000 + 7 * 24 * 3600)))])"
proof -
  from jwt_verify_Inr [OF verified] obtain k exp_at
    where tok: "tok = Signed decoded k exp_at"
      and k: "js_or (JWT_REFRESH_SECRET (rt_env rt)) (JWT_SECRET (rt_env rt)) = Some k"
    by blast
  from k secret have k': "(case JWT_REFRESH_SECRET (rt_env rt) of None \<Rightarrow> secret
      | Some s \<Rightarrow> if s = [] then secret else s) = k"
    by (auto simp: js_or_def split: option.splits if_splits)
  from found have uid: "user_id user = claim_id decoded"
    by (rule findOne_id_user_id)
  have "refreshToken rt (Some tok) d =
       Respond 200
         (JObject [(''message'', JString ''Token refreshed successfully''),
            (''accessToken'',
             JToken (Signed \<lparr>claim_id = claim_id decoded, claim_role = Some (roleName (role user))\<rparr>
                       secret (rt_now rt div 1000 + 3600))),
            (''refreshToken'',
             JToken (Signed \<lparr>claim_id = claim_id decoded, claim_role = None\<rparr>
                       k (rt_now rt div 1000 + 7 * 24 * 3600)))])"
    using verified found uid k'
    by (simp add: refreshToken_def tok generateTokens_ok [OF secret])
  with k show ?thesis by blast
qed

theorem refreshToken_role_from_store_witness:
  "generateTokens (example_env ''production'') 0 ''u-alice'' (role alice) =
     Inr (Signed \<lparr>claim_id = ''u-alice'', claim_role = Some ''psr''\<rparr> ''s3cret'' 3600,
          Signed \<lparr>claim_id = ''u-alice'', claim_role = None\<rparr> ''s3cret'' 604800)
   \<and> refreshToken (example_rt ''production'')
        (Some (Signed \<lparr>claim_id = ''u-alice'', claim_role = None\<rparr> ''s3cret'' 604800))
        (example_db\<lparr>users := [root_user, alice\<lparr>role := admin_role\<rparr>]\<rparr>) =
       Respond 200
         (JObject [(''message'', JString ''Token refreshed successfully''),
            (''accessToken'',
             JToken (Signed \<lparr>claim_id = ''u-alice'', claim_role = Some ''admin''\<rparr> ''s3cret'' 8600)),
            (''refreshToken'',
             JToken (Signed \<lparr>claim_id = ''u-alice'', claim_role = None\<rparr> ''s3cret'' 609800))])"
proof -
  let ?rt = "example_rt ''production''"
  let ?tok = "Signed \<lparr>claim_id = ''u-alice'', claim_role = None\<rparr> ''s3cret'' 604800"
  let ?d = "example_db\<lparr>users := [root_user, alice\<lparr>role := admin_role\<rparr>]\<rparr>"
  have issued: "generateTokens (example_env ''production'') 0 ''u-alice'' (role alice) =
     Inr (Signed \<lparr>claim_id = ''u-alice'', claim_role = Some ''psr''\<rparr> ''s3cret'' 3600, ?tok)"
    by (simp add: generateTokens_def jwt_sign_def js_or_def example_env_def alice_def psr_role_def)
  have v: "jwt_verify ?tok (js_or (JWT_REFRESH_SECRET (rt_env ?rt)) (JWT_SECRET (rt_env ?rt)))
             (rt_now ?rt) = Inr \<lparr>claim_id = ''u-alice'', claim_role = None\<rparr>"
    by (simp add: jwt_verify_def js_or_def example_rt_def example_env_def)
  have f: "findOne_id ?d (claim_id \<lparr>claim_id = ''u-alice'', claim_role = None\<rparr>)
      = Some (alice\<lparr>role := admin_role\<rparr>)"
    by (simp add: findOne_id_def example_db_def root_user_def alice_def)
  have s: "JWT_SECRET (rt_env ?rt) = Some ''s3cret''" "''s3cret'' \<noteq> []"
    by (simp_all add: example_rt_def example_env_def)
  from refreshToken_role_from_store [OF v f s]
  have "refreshToken ?rt (Some ?tok) ?d =
       Respond 200
         (JObject [(''message'', JString ''Token refreshed successfully''),
            (''accessToken'',
             JToken (Signed \<lparr>claim_id = ''u-alice'', claim_role = Some ''admin''\<rparr> ''s3cret'' 8600)),
            (''refreshToken'',
             JToken (Signed \<lparr>claim_id = ''u-alice'', claim_role = None\<rparr> ''s3cret'' 609800))])"
    by (simp add: js_or_def example_rt_def example_env_def admin_role_def)
  with issued show ?thesis
    by simp
qed


text \<open>
  C4. A login request that passed validation and fails because no account has the email,
  or because the password does not match the stored hash, gets status 401 with the error
  \<open>Unauthorized\<close> and the message \<open>Invalid email or password\<close>: one and the same response
  in both cases.
\<close>

theorem login_failure_same_response:
  assumes "findOne_email d email_in = None
     \<or> (\<exists>user. findOne_email d email_in = Some user
           \<and> \<not> bcrypt_compare B password_in (password_hash user))"
  shows "login B rt [] email_in password_in d =
     Respond 401 (error_body ''Unauthorized'' ''Invalid email or password'')"
  using assms by (auto simp: login_def)

theorem login_failure_same_response_witness:
  "login toy_bcrypt (example_rt ''production'') [] ''nobody@x.com'' ''Passw0rd!'' example_db =
     Respond 401 (error_body ''Unauthorized'' ''Invalid email or password'')
   \<and> login toy_bcrypt (example_rt ''production'') [] ''alice@x.com'' ''wrong-pass1'' example_db =
     Respond 401 (error_body ''Unauthorized'' ''Invalid email or password'')
   \<and> (\<exists>body. login toy_bcrypt (example_rt ''production'') [] ''alice@x.com'' ''Passw0rd!'' example_db =
     Respond 200 body)"
proof -
  have unknown: "findOne_email example_db ''nobody@x.com'' = None"
    by (simp add: findOne_email_def example_db_def root_user_def alice_def)
  have known: "findOne_email example_db ''alice@x.com'' = Some alice"
    by (simp add: findOne_email_def example_db_def root_user_def alice_def)
  have wrong: "\<not> bcrypt_compare toy_bcrypt ''wrong-pass1'' (password_hash alice)"
    by (simp add: toy_bcrypt_def alice_def)
  have right: "bcrypt_compare toy_bcrypt ''Passw0rd!'' (password_hash alice)"
    by (simp add: toy_bcrypt_def alice_def)
  have a: "login toy_bcrypt (example_rt ''production'') [] ''nobody@x.com'' ''Passw0rd!'' example_db =
     Respond 401 (error_body ''Unauthorized'' ''Invalid email or password'')"
    using unknown by (intro login_failure_same_response) simp
  have b: "login toy_bcrypt (example_rt ''production'') [] ''alice@x.com'' ''wrong-pass1'' example_db =
     Respond 401 (error_body ''Unauthorized'' ''Invalid email or password'')"
    using known wrong by (intro login_failure_same_response) simp
  have c: "\<exists>body. login toy_bcrypt (example_rt ''production'') [] ''alice@x.com'' ''Passw0rd!'' example_db =
     Respond 200 body"
    using known right
    by (simp add: login_def generateTokens_def jwt_sign_def js_or_def example_rt_def example_env_def)
  from a b c show ?thesis by blast
qed


text \<open>
  C7 (as amended). On a server whose reset secret is configured, every \<open>forgotPassword\<close>
  request gets status 200 with the same generic message, whether or not an account has the
  email. When \<^verbatim>\<open>NODE_ENV\<close> is \<open>production\<close> the message is the whole body, so two runs that
  differ only in the store get the same response. In any other mode the body carries in
  addition, when the account exists, the reset token signed for it.
\<close>

theorem forgotPassword_response:
  assumes "js_or (JWT_RESET_SECRET (rt_env rt)) (JWT_SECRET (rt_env rt)) = Some k" and "k \<noteq> []"
  shows "\<exists>extra.
      forgotPassword rt email_in d =
        Respond 200
          (JObject ((''message'',
             JString ''If your email is registered, you will receive a password reset link'')
             # extra))
    \<and> (findOne_email d email_in = None \<longrightarrow> extra = [])
    \<and> (NODE_ENV (rt_env rt) = Some ''production'' \<longrightarrow>
          extra = [] \<and> forgotPassword rt email_in d' = forgotPassword rt email_in d)
    \<and> (\<forall>user. NODE_ENV (rt_env rt) \<noteq> Some ''production'' \<and> findOne_email d email_in = Some user \<longrightarrow>
          extra = [(''resetToken'',
             JToken (Signed \<lparr>claim_id = user_id user, claim_role = None\<rparr> k
                       (rt_now rt div 1000 + 3600)))])"
  using assms
  by (cases "findOne_email d email_in"; cases "findOne_email d' email_in")
     (auto simp: forgotPassword_def jwt_sign_def)

theorem forgotPassword_response_witness:
  "forgotPassword (example_rt ''production'') ''alice@x.com'' example_db =
     Respond 200
       (JObject [(''message'',
          JString ''If your email is registered, you will receive a password reset link'')])
   \<and> forgotPassword (example_rt ''production'') ''alice@x.com'' (example_db\<lparr>users := []\<rparr>) =
       forgotPassword (example_rt ''production'') ''alice@x.com'' example_db"
proof -
  let ?rt = "example_rt ''production''"
  have k: "js_or (JWT_RESET_SECRET (rt_env ?rt)) (JWT_SECRET (rt_env ?rt)) = Some ''s3cret''"
      "''s3cret'' \<noteq> []"
    by (simp_all add: js_or_def example_rt_def example_env_def)
  have p: "NODE_ENV (rt_env ?rt) = Some ''production''"
    by (simp add: example_rt_def example_env_def)
  from forgotPassword_response [OF k, of "''alice@x.com''" example_db "example_db\<lparr>users := []\<rparr>"] p
  show ?thesis
    by auto
qed

text \<open>
  The claim as stated fails in development mode: the same request gets different responses
  with and without the account.
\<close>

theorem forgotPassword_reveals_account_outside_production:
  "forgotPassword (example_rt ''development'') ''alice@x.com'' example_db
     \<noteq> forgotPassword (example_rt ''development'') ''alice@x.com'' (example_db\<lparr>users := []\<rparr>)"
  by (simp add: forgotPassword_def findOne_email_def example_db_def root_user_def alice_def
        jwt_sign_def js_or_def example_rt_def example_env_def)

section \<open>Properties of the middleware\<close>

text \<open>
  \<open>rbacMiddleware\<close> on its own tells the two failures apart: 401 without \<^verbatim>\<open>req.user\<close>, 403
  for a role that is a non-empty string outside the allowed list. But \<open>authMiddleware\<close>
  reads the role under the column name \<^verbatim>\<open>role_name\<close>, which the entity does not have, so
  the role it attaches is always \<^verbatim>\<open>undefined\<close> and a role-gated route never answers 403.
\<close>

lemma authMiddleware_role_undefined:
  "authMiddleware e now authHeader d = Continue u \<Longrightarrow> req_user_role u = Undefined"
  by (auto simp: authMiddleware_def unauthorized_def get_def User_object_def Role_object_def
        split: option.splits if_splits sum.splits)

lemma rbacMiddleware_undefined_role:
  "req_user_role u = Undefined \<Longrightarrow>
   rbacMiddleware allowedRoles (Some u) =
     Stop (Respond 401
       (error_body ''Unauthorized'' ''Authentication required before role verification.''))"
  by (simp add: rbacMiddleware_def truthy_def)

lemma role_gated_route_never_forbidden:
  "role_gated_route allowedRoles e now authHeader d \<noteq> Stop (Respond 403 body)"
  by (auto simp: role_gated_route_def authMiddleware_def unauthorized_def get_def User_object_def Role_object_def rbacMiddleware_def truthy_def
        split: option.splits if_splits sum.splits middleware.splits)

lemma rbacMiddleware_alone:
  "rbacMiddleware allowedRoles None =
     Stop (Respond 401
       (error_body ''Unauthorized'' ''Authentication required before role verification.''))"
  "req_user_role u = Str r \<Longrightarrow> r \<noteq> [] \<Longrightarrow> r \<notin> set allowedRoles \<Longrightarrow>
   rbacMiddleware allowedRoles (Some u) =
     Stop (Respond 403
       (error_body ''Forbidden'' ''You do not have permission to access this resource.''))"
  by (auto simp: rbacMiddleware_def truthy_def)

text \<open>
  C5. The claim asks for 403 when a verified token of role \<open>psr\<close> meets a route gated to
  \<open>admin\<close>. On the code the request is answered 401: the token verifies, the account is
  found with role \<open>psr\<close>, \<open>authMiddleware\<close> attaches \<^verbatim>\<open>req.user\<close> with an undefined role, and
  \<open>rbacMiddleware\<close> takes that for a missing authentication.
\<close>

theorem role_gated_route_psr_token_unauthorized:
  "jwt_verify (Signed \<lparr>claim_id = ''u-alice'', claim_role = Some ''psr''\<rparr> ''s3cret'' 8600)
      (JWT_SECRET (example_env ''production'')) 5000000
     = Inr \<lparr>claim_id = ''u-alice'', claim_role = Some ''psr''\<rparr>
   \<and> roleName (role alice) = ''psr''
   \<and> authMiddleware (example_env ''production'') 5000000
       (Some [Garbled ''Bearer'',
              Signed \<lparr>claim_id = ''u-alice'', claim_role = Some ''psr''\<rparr> ''s3cret'' 8600])
       example_db
     = Continue \<lparr>req_user_id = ''u-alice'', req_user_email = ''alice@x.com'',
                 req_user_fullName = Undefined, req_user_role = Undefined\<rparr>
   \<and> role_gated_route [''admin''] (example_env ''production'') 5000000
       (Some [Garbled ''Bearer'',
              Signed \<lparr>claim_id = ''u-alice'', claim_role = Some ''psr''\<rparr> ''s3cret'' 8600])
       example_db
     = Stop (Respond 401
         (error_body ''Unauthorized'' ''Authentication required before role verification.''))"
  by (simp add: role_gated_route_def authMiddleware_def jwt_verify_def example_env_def
        findOne_id_def example_db_def root_user_def alice_def psr_role_def admin_role_def
        get_def User_object_def Role_object_def rbacMiddleware_def truthy_def)

section \<open>Properties of the OTP authentication controller\<close>

lemma verifyOTP_valid:
  "otpStore p = Some e \<Longrightarrow> \<not> expiresAt e \<le> now \<Longrightarrow> otp e = code \<Longrightarrow>
   verifyOTP now p code otpStore = (True, otpStore(p := None))"
  by (simp add: verifyOTP_def)

lemma verifyOTP_absent:
  "otpStore p = None \<Longrightarrow> verifyOTP now p code otpStore = (False, otpStore)"
  by (simp add: verifyOTP_def)

text \<open>
  C8. When a verification request that passed validation presents the stored, unexpired
  code for its phone, no account has that phone, and no full name is supplied (absent or
  empty), the handler answers 400 \<open>Registration Required\<close> and the ledger it leaves behind
  has no entry for the phone. Every later request with the same phone and code on that
  ledger, whatever full name it carries and whenever it arrives, fails: 401 \<open>Invalid OTP\<close>
  (or 400 if it does not pass validation), with the ledger and the store unchanged.
\<close>

theorem verifyOTPAndLogin_registration_required_consumes_otp:
  assumes entry: "otpStore (formatNepaliPhone phone_in) = Some e"
    and live: "\<not> expiresAt e \<le> rt_now rt"
    and code: "otp e = otp_in"
    and nouser: "findOne_phone d (formatNepaliPhone phone_in) = None"
    and noname: "fullName_in = None \<or> fullName_in = Some []"
  shows "verifyOTPAndLogin B rt placeholder [] phone_in otp_in fullName_in (otpStore, d) =
      (Respond 400
         (JObject [(''error'', JString ''Registration Required''),
            (''message'', JString ''User not found. Please provide your full name to register.''),
            (''requiresRegistration'', JBoolean True)]),
       otpStore(formatNepaliPhone phone_in := None), d)
    \<and> (otpStore(formatNepaliPhone phone_in := None)) (formatNepaliPhone phone_in) = None
    \<and> (\<forall>B' rt' placeholder' errors' fullName'.
          verifyOTPAndLogin B' rt' placeholder' errors' phone_in otp_in fullName'
            (otpStore(formatNepaliPhone phone_in := None), d) =
          ((if errors' \<noteq> [] then Respond 400 (JObject [(''errors'', errors_array errors')])
            else Respond 401
              (error_body ''Invalid OTP'' ''The verification code is invalid or has expired.'')),
           otpStore(formatNepaliPhone phone_in := None), d))"
proof -
  let ?p = "formatNepaliPhone phone_in"
  have first: "verifyOTP (rt_now rt) ?p otp_in otpStore = (True, otpStore(?p := None))"
    using entry live code by (rule verifyOTP_valid)
  have again: "\<And>now'. verifyOTP now' ?p otp_in (otpStore(?p := None))
      = (False, otpStore(?p := None))"
    by (rule verifyOTP_absent) simp
  from noname have "verifyOTPAndLogin B rt placeholder [] phone_in otp_in fullName_in (otpStore, d) =
      (Respond 400
         (JObject [(''error'', JString ''Registration Required''),
            (''message'', JString ''User not found. Please provide your full name to register.''),
            (''requiresRegistration'', JBoolean True)]),
       otpStore(?p := None), d)"
    by (auto simp: verifyOTPAndLogin_def Let_def first nouser)
  moreover have "\<forall>B' rt' placeholder' errors' fullName'.
          verifyOTPAndLogin B' rt' placeholder' errors' phone_in otp_in fullName'
            (otpStore(?p := None), d) =
          ((if errors' \<noteq> [] then Respond 400 (JObject [(''errors'', errors_array errors')])
            else Respond 401
              (error_body ''Invalid OTP'' ''The verification code is invalid or has expired.'')),
           otpStore(?p := None), d)"
    by (simp add: verifyOTPAndLogin_def Let_def again)
  ultimately show ?thesis
    by simp
qed

theorem verifyOTPAndLogin_registration_required_consumes_otp_witness:
  "verifyOTPAndLogin toy_bcrypt (example_rt ''production'') ''k3j9x0q2ab'' [] ''9812345678''
      ''482913'' None (storeOTP 4900000 ''+9779812345678'' ''482913'' Map.empty, example_db) =
      (Respond 400
         (JObject [(''error'', JString ''Registration Required''),
            (''message'', JString ''User not found. Please provide your full name to register.''),
            (''requiresRegistration'', JBoolean True)]),
       Map.empty, example_db)
   \<and> verifyOTPAndLogin toy_bcrypt (example_rt ''production'') ''k3j9x0q2ab'' [] ''9812345678''
      ''482913'' (Some ''Bob B'') (Map.empty, example_db) =
      (Respond 401
         (error_body ''Invalid OTP'' ''The verification code is invalid or has expired.''),
       Map.empty, example_db)"
proof -
  let ?st = "storeOTP 4900000 ''+9779812345678'' ''482913'' Map.empty"
  let ?e = "\<lparr>otp = ''482913'', expiresAt = 5200000\<rparr>"
  let ?rt = "example_rt ''production''"
  have f: "formatNepaliPhone ''9812345678'' = ''+9779812345678''"
    by (simp add: formatNepaliPhone_def is_digit_def)
  have entry: "?st (formatNepaliPhone ''9812345678'') = Some ?e"
    by (simp add: f storeOTP_def)
  have live: "\<not> expiresAt ?e \<le> rt_now ?rt"
    by (simp add: example_rt_def)
  have code: "otp ?e = ''482913''"
    by simp
  have nouser: "findOne_phone example_db (formatNepaliPhone ''9812345678'') = None"
    by (simp add: f findOne_phone_def example_db_def root_user_def alice_def)
  have gone: "?st(formatNepaliPhone ''9812345678'' := None) = Map.empty"
    by (simp add: f storeOTP_def)
  have noname: "(None :: string option) = None \<or> (None :: string option) = Some []"
    by simp
  note t = verifyOTPAndLogin_registration_required_consumes_otp
    [where otpStore = ?st and phone_in = "''9812345678''" and e = ?e and rt = ?rt
       and otp_in = "''482913''" and d = example_db and fullName_in = None
       and B = toy_bcrypt and placeholder = "''k3j9x0q2ab''",
     OF entry live code nouser noname]
  from t have a: "verifyOTPAndLogin toy_bcrypt ?rt ''k3j9x0q2ab'' [] ''9812345678''
      ''482913'' None (?st, example_db) =
      (Respond 400
         (JObject [(''error'', JString ''Registration Required''),
            (''message'', JString ''User not found. Please provide your full name to register.''),
            (''requiresRegistration'', JBoolean True)]),
       Map.empty, example_db)"
    unfolding gone by simp
  from t have "\<forall>B' rt' placeholder' errors' fullName'.
          verifyOTPAndLogin B' rt' placeholder' errors' ''9812345678'' ''482913'' fullName'
            (Map.empty, example_db) =
          ((if errors' \<noteq> [] then Respond 400 (JObject [(''errors'', errors_array errors')])
            else Respond 401
              (error_body ''Invalid OTP'' ''The verification code is invalid or has expired.'')),
           Map.empty, example_db)"
    unfolding gone by simp
  then have b: "verifyOTPAndLogin toy_bcrypt ?rt ''k3j9x0q2ab'' [] ''9812345678''
      ''482913'' (Some ''Bob B'') (Map.empty, example_db) =
      (Respond 401
         (error_body ''Invalid OTP'' ''The verification code is invalid or has expired.''),
       Map.empty, example_db)"
    by simp
  from a b show ?thesis
    by simp
qed

section \<open>Properties of the password routes\<close>

lemma changePasswordValidators_empty_iff:
  "changePasswordValidators currentPassword newPassword = [] \<longleftrightarrow>
     currentPassword \<noteq> [] \<and> newPassword \<noteq> currentPassword \<and> strength_policy newPassword"
  by (auto simp: changePasswordValidators_def check_def strength_policy_def list_ex_iff)

lemma changePasswordValidators_same:
  "(''newPassword'', ''New password cannot be the same as current password'')
     \<in> set (changePasswordValidators pw pw)"
  by (simp add: changePasswordValidators_def check_def)

lemma find_map_update:
  "find P xs = Some u \<Longrightarrow> (\<And>x. P (f x) = P x) \<Longrightarrow> find P (map f xs) = Some (f u)"
  by (induction xs) (auto split: if_splits)

lemma findOne_id_save_password:
  assumes "findOne_id d i = Some user"
  shows "findOne_id (save_password B rt d i pw) i
           = Some (user\<lparr>password_hash := hashPassword B (rt_salt rt) pw\<rparr>)"
proof -
  let ?f = "\<lambda>u. if user_id u = i then u\<lparr>password_hash := hashPassword B (rt_salt rt) pw\<rparr> else u"
  from assms have i: "user_id user = i"
    by (auto simp: findOne_id_def find_Some_iff)
  from assms have "find (\<lambda>u. user_id u = i) (map ?f (users d)) = Some (?f user)"
    unfolding findOne_id_def by (rule find_map_update) simp
  with i show ?thesis
    by (simp add: findOne_id_def save_password_def)
qed

lemma change_password_route_authenticated:
  assumes "authMiddleware (rt_env rt) (rt_now rt) authHeader d = Continue u"
    and "findOne_id d (req_user_id u) = Some user"
    and "bcrypt_compare B currentPassword (password_hash user)"
  shows "change_password_route B rt authHeader currentPassword newPassword d =
     (if changePasswordValidators currentPassword newPassword \<noteq> [] then
        (Respond 400
           (JObject [(''errors'',
              errors_array (changePasswordValidators currentPassword newPassword))]), d)
      else
        (Respond 200 (JObject [(''message'', JString ''Password changed successfully'')]),
         save_password B rt d (req_user_id u) newPassword))"
proof -
  from assms(2) have "user_id user = req_user_id u"
    by (auto simp: findOne_id_def find_Some_iff)
  with assms show ?thesis
    by (simp add: change_password_route_def changePassword_def)
qed

lemma alice_authenticated:
  "authMiddleware (rt_env (example_rt mode)) (rt_now (example_rt mode)) alice_header example_db
     = Continue alice_req_user"
  by (simp add: authMiddleware_def alice_header_def alice_req_user_def jwt_verify_def
        example_rt_def example_env_def findOne_id_def example_db_def root_user_def alice_def
        get_def User_object_def Role_object_def)

lemma alice_found: "findOne_id example_db (req_user_id alice_req_user) = Some alice"
  by (simp add: alice_req_user_def findOne_id_def example_db_def root_user_def alice_def)

lemma alice_password: "bcrypt_compare toy_bcrypt ''Passw0rd!'' (password_hash alice)"
  by (simp add: toy_bcrypt_def alice_def)

text \<open>
  C6. For every password-change request that passed \<open>authMiddleware\<close> and whose current
  password matches the stored hash: if the new password equals the current one or fails
  the strength policy (length at least 8, a letter, a digit), the route answers 400 and the
  store is unchanged, the error list naming the equality when the two are equal; the route
  answers 200 exactly when the current password is not empty, the new one differs from it
  and meets the policy, and then the stored \<^verbatim>\<open>password_hash\<close> of the account is what the
  entity hook makes of the new password.
\<close>

theorem change_password_route_rejects_same_or_weak:
  assumes auth: "authMiddleware (rt_env rt) (rt_now rt) authHeader d = Continue u"
    and user: "findOne_id d (req_user_id u) = Some user"
    and current: "bcrypt_compare B currentPassword (password_hash user)"
  shows "(newPassword = currentPassword \<or> \<not> strength_policy newPassword \<longrightarrow>
        change_password_route B rt authHeader currentPassword newPassword d =
          (Respond 400
             (JObject [(''errors'',
                errors_array (changePasswordValidators currentPassword newPassword))]), d)
        \<and> changePasswordValidators currentPassword newPassword \<noteq> [])
    \<and> (newPassword = currentPassword \<longrightarrow>
         (''newPassword'', ''New password cannot be the same as current password'')
           \<in> set (changePasswordValidators currentPassword newPassword))
    \<and> ((\<exists>body. fst (change_password_route B rt authHeader currentPassword newPassword d)
                  = Respond 200 body)
         \<longleftrightarrow> currentPassword \<noteq> [] \<and> newPassword \<noteq> currentPassword
              \<and> strength_policy newPassword)
    \<and> (currentPassword \<noteq> [] \<and> newPassword \<noteq> currentPassword \<and> strength_policy newPassword \<longrightarrow>
         change_password_route B rt authHeader currentPassword newPassword d =
           (Respond 200 (JObject [(''message'', JString ''Password changed successfully'')]),
            save_password B rt d (req_user_id u) newPassword)
         \<and> findOne_id (save_password B rt d (req_user_id u) newPassword) (req_user_id u)
             = Some (user\<lparr>password_hash := hashPassword B (rt_salt rt) newPassword\<rparr>))"
proof -
  note route = change_password_route_authenticated [OF auth user current, of newPassword]
  note iff = changePasswordValidators_empty_iff [of currentPassword newPassword]
  have a: "newPassword = currentPassword \<or> \<not> strength_policy newPassword \<longrightarrow>
        change_password_route B rt authHeader currentPassword newPassword d =
          (Respond 400
             (JObject [(''errors'',
                errors_array (changePasswordValidators currentPassword newPassword))]), d)
        \<and> changePasswordValidators currentPassword newPassword \<noteq> []"
    using route iff by auto
  have b: "newPassword = currentPassword \<longrightarrow>
         (''newPassword'', ''New password cannot be the same as current password'')
           \<in> set (changePasswordValidators currentPassword newPassword)"
    using changePasswordValidators_same by simp
  have c: "(\<exists>body. fst (change_password_route B rt authHeader currentPassword newPassword d)
                  = Respond 200 body)
         \<longleftrightarrow> currentPassword \<noteq> [] \<and> newPassword \<noteq> currentPassword
              \<and> strength_policy newPassword"
    using route iff by (cases "changePasswordValidators currentPassword newPassword = []") simp_all
  have d: "currentPassword \<noteq> [] \<and> newPassword \<noteq> currentPassword \<and> strength_policy newPassword \<longrightarrow>
         change_password_route B rt authHeader currentPassword newPassword d =
           (Respond 200 (JObject [(''message'', JString ''Password changed successfully'')]),
            save_password B rt d (req_user_id u) newPassword)
         \<and> findOne_id (save_password B rt d (req_user_id u) newPassword) (req_user_id u)
             = Some (user\<lparr>password_hash := hashPassword B (rt_salt rt) newPassword\<rparr>)"
    using route iff findOne_id_save_password [OF user] by simp
  from a b c d show ?thesis
    by blast
qed


theorem change_password_route_rejects_same_or_weak_witness:
  "change_password_route toy_bcrypt (example_rt ''production'') alice_header
       ''Passw0rd!'' ''Passw0rd!'' example_db =
     (Respond 400
        (JObject [(''errors'',
           JArray [JObject [(''msg'', JString ''New password cannot be the same as current password''),
                            (''param'', JString ''newPassword'')]])]), example_db)
   \<and> change_password_route toy_bcrypt (example_rt ''production'') alice_header
       ''Passw0rd!'' ''N3wPassword'' example_db =
     (Respond 200 (JObject [(''message'', JString ''Password changed successfully'')]),
      save_password toy_bcrypt (example_rt ''production'') example_db ''u-alice'' ''N3wPassword'')
   \<and> findOne_id
        (save_password toy_bcrypt (example_rt ''production'') example_db ''u-alice'' ''N3wPassword'')
        ''u-alice''
      = Some (alice\<lparr>password_hash := ''$2b$10$peprN3wPassword''\<rparr>)"
proof -
  let ?rt = "example_rt ''production''"
  note t = change_password_route_rejects_same_or_weak
    [where B = toy_bcrypt and currentPassword = "''Passw0rd!''",
     OF alice_authenticated [of "''production''"] alice_found alice_password]
  have same: "changePasswordValidators ''Passw0rd!'' ''Passw0rd!'' =
      [(''newPassword'', ''New password cannot be the same as current password'')]"
    by (simp add: changePasswordValidators_def check_def is_letter_def is_digit_def)
  have strong: "strength_policy ''N3wPassword''"
    by (simp add: strength_policy_def is_letter_def is_digit_def)
  from t [of "''Passw0rd!''"] have a: "change_password_route toy_bcrypt ?rt alice_header
       ''Passw0rd!'' ''Passw0rd!'' example_db =
     (Respond 400
        (JObject [(''errors'',
           JArray [JObject [(''msg'', JString ''New password cannot be the same as current password''),
                            (''param'', JString ''newPassword'')]])]), example_db)"
    by (simp add: same errors_array_def)
  from t [of "''N3wPassword''"] strong have b: "change_password_route toy_bcrypt ?rt alice_header
       ''Passw0rd!'' ''N3wPassword'' example_db =
     (Respond 200 (JObject [(''message'', JString ''Password changed successfully'')]),
      save_password toy_bcrypt ?rt example_db ''u-alice'' ''N3wPassword'')
   \<and> findOne_id (save_password toy_bcrypt ?rt example_db ''u-alice'' ''N3wPassword'') ''u-alice''
      = Some (alice\<lparr>password_hash := ''$2b$10$peprN3wPassword''\<rparr>)"
    by (simp add: alice_req_user_def hashPassword_def toy_bcrypt_def example_rt_def)
  from a b show ?thesis
    by simp
qed

lemma hashPassword_nonempty:
  "pw \<noteq> [] \<Longrightarrow>
   hashPassword B salt pw = (if prefix ''$2b$'' pw then pw else bcrypt_hash B pw 10 salt)"
  by (simp add: hashPassword_def)

lemma registerValidators_password:
  "registerValidators V email_in password_in fullName_in phone_in roleId_in = [] \<Longrightarrow>
   password_in \<noteq> []"
  by (auto simp: registerValidators_def check_def split: if_splits)

lemma save_new_Inr:
  "save_new B rt d email_opt pw name phone_in role_in = Inr (user, d') \<Longrightarrow>
   d' = d\<lparr>users := users d @ [user]\<rparr> \<and> email_opt = Some (email user)
   \<and> password_hash user = hashPassword B (rt_salt rt) pw"
  by (auto simp: save_new_def Let_def split: option.splits if_splits)

lemma register_create_cases:
  "register_create B rt email_in pw name phone_in role_in d = (res, d') \<Longrightarrow>
   (d' = d \<and> (\<forall>body. res \<noteq> Respond 201 body))
   \<or> (\<exists>user. d' = d\<lparr>users := users d @ [user]\<rparr> \<and> email user = email_in
         \<and> password_hash user = hashPassword B (rt_salt rt) pw)"
  unfolding register_create_def
  by (auto split: sum.splits prod.splits dest!: save_new_Inr)

lemma register_cases:
  "register B rt errors email_in pw name phone_in roleId_in d = (res, d') \<Longrightarrow>
   (d' = d \<and> (\<forall>body. res \<noteq> Respond 201 body))
   \<or> (errors = [] \<and> (\<exists>user. d' = d\<lparr>users := users d @ [user]\<rparr> \<and> email user = email_in
         \<and> password_hash user = hashPassword B (rt_salt rt) pw))"
  unfolding register_def
  by (auto split: if_splits option.splits dest: register_create_cases)

lemma authMiddleware_Continue_found:
  assumes "authMiddleware e now authHeader d = Continue u"
  shows "\<exists>user. findOne_id d (req_user_id u) = Some user"
proof -
  from assms have "\<exists>(decoded::claims) user.
      findOne_id d (claim_id decoded) = Some user \<and> req_user_id u = user_id user"
    by (fastforce simp: authMiddleware_def unauthorized_def
          split: option.splits if_splits sum.splits)
  then obtain decoded :: claims and user
    where f: "findOne_id d (claim_id decoded) = Some user" and u: "req_user_id u = user_id user"
    by blast
  from f have "user_id user = claim_id decoded"
    by (rule findOne_id_user_id)
  with f u show ?thesis
    by simp
qed

lemma change_password_route_200:
  assumes "change_password_route B rt authHeader currentPassword newPassword d
             = (Respond 200 body, d')"
  shows "changePasswordValidators currentPassword newPassword = []
     \<and> (\<exists>u. authMiddleware (rt_env rt) (rt_now rt) authHeader d = Continue u
           \<and> d' = save_password B rt d (req_user_id u) newPassword)"
proof (cases "authMiddleware (rt_env rt) (rt_now rt) authHeader d")
  case (Stop r)
  with assms have "r = Respond 200 body"
    by (simp add: change_password_route_def)
  with Stop show ?thesis
    by (auto simp: authMiddleware_def unauthorized_def
          split: option.splits if_splits sum.splits)
next
  case (Continue u)
  from authMiddleware_Continue_found [OF Continue] obtain user
    where f: "findOne_id d (req_user_id u) = Some user"
    by blast
  then have "user_id user = req_user_id u"
    by (rule findOne_id_user_id)
  with assms Continue f show ?thesis
    by (auto simp: change_password_route_def changePassword_def split: if_splits)
qed

lemma register_bob:
  "fst (register_route any_validator toy_bcrypt (example_rt ''production'') ''bob@x.com''
          ''$2b$abcdefg1'' ''Bob B'' None None example_db) =
     Respond 201
       (JObject [(''message'', JString ''User registered successfully''),
          (''user'', JObject [(''id'', JString ''u-new''), (''email'', JString ''bob@x.com''),
             (''fullName'', JString ''Bob B''), (''role'', JString ''psr'')]),
          (''accessToken'',
           JToken (Signed \<lparr>claim_id = ''u-new'', claim_role = Some ''psr''\<rparr> ''s3cret'' 8600)),
          (''refreshToken'',
           JToken (Signed \<lparr>claim_id = ''u-new'', claim_role = None\<rparr> ''s3cret'' 609800))])"
  by (simp add: register_route_def register_def registerValidators_def check_def
        any_validator_def is_letter_def is_digit_def findOne_email_def findOne_id_def
        findOne_role_def ROLES_PSR_def example_db_def root_user_def alice_def admin_role_def
        psr_role_def register_create_def save_new_def hashPassword_def generateTokens_def
        jwt_sign_def js_or_def example_rt_def example_env_def Let_def)

lemma registerValidators_empty:
  "registerValidators V email_in password_in fullName_in phone_in roleId_in = [] \<Longrightarrow>
   password_in \<noteq> [] \<and> length fullName_in \<le> 100"
  by (auto simp: registerValidators_def check_def split: if_splits)

lemma register_create_persists:
  "save_new B rt d (Some email_in) pw name phone_in role_in = Inr (user, d') \<Longrightarrow>
   snd (register_create B rt email_in pw name phone_in role_in d) = d'"
  by (simp add: register_create_def split: sum.splits prod.splits)

lemma register_persists:
  assumes valid: "errors = []"
    and fresh: "findOne_email d email_in = None"
    and resolved: "(case roleId_in of None \<Rightarrow> findOne_role d ROLES_PSR
         | Some n \<Rightarrow> if n = 0 then findOne_role d ROLES_PSR else findOne_role d n) = Some r"
    and saved: "save_new B rt d (Some email_in) pw name phone_in (Some r) = Inr (user, d')"
  shows "snd (register B rt errors email_in pw name phone_in roleId_in d) = d'"
proof (cases roleId_in)
  case None
  with resolved have "findOne_role d ROLES_PSR = Some r" by simp
  with valid fresh None saved show ?thesis
    by (simp add: register_def register_create_persists)
next
  case (Some n)
  show ?thesis
  proof (cases "n = 0")
    case True
    with resolved Some have "findOne_role d ROLES_PSR = Some r" by simp
    with valid fresh Some True saved show ?thesis
      by (simp add: register_def register_create_persists)
  next
    case False
    with resolved Some have "findOne_role d n = Some r" by simp
    with valid fresh Some False saved show ?thesis
      by (simp add: register_def register_create_persists)
  qed
qed

lemma save_new_ok:
  assumes "findOne_email d e = None" and "findOne_id d (rt_uuid rt) = None"
    and "length e \<le> 255" and "length name \<le> 120"
    and "case phone_in of None \<Rightarrow> True | Some p \<Rightarrow> length p \<le> 30"
  shows "save_new B rt d (Some e) pw name phone_in (Some r) =
     Inr (\<lparr>user_id = rt_uuid rt, email = e, password_hash = hashPassword B (rt_salt rt) pw,
            fullName = name, phone = phone_in, role = r\<rparr>,
          d\<lparr>users := users d @
            [\<lparr>user_id = rt_uuid rt, email = e, password_hash = hashPassword B (rt_salt rt) pw,
              fullName = name, phone = phone_in, role = r\<rparr>]\<rparr>)"
  using assms by (auto simp: save_new_def Let_def split: option.splits)


text \<open>
  C9. The entity hook replaces \<^verbatim>\<open>password_hash\<close> by its bcrypt hash (10 rounds) unless the
  value is empty or starts with \<open>$2b$\<close>, in which case it leaves the value as it is. The
  validators of the two routes refuse an empty password. So a registration that passes
  validation, with an email not yet registered, a role that resolves and a row the table
  accepts, appends the account with \<^verbatim>\<open>password_hash\<close> the supplied password itself if that
  starts with \<open>$2b$\<close>, and its bcrypt hash otherwise; and an authenticated password change
  with a matching current password and a new password that differs and meets the policy
  answers 200 and stores the same for that account. Conversely every account a
  registration persists, and every password change answered 200, stores that value.
\<close>

theorem hashPassword_skips_bcrypt_prefix:
  "hashPassword B salt pw =
     (if pw = [] \<or> prefix ''$2b$'' pw then pw else bcrypt_hash B pw 10 salt)
   \<and> (registerValidators V email_in pw name phone_in roleId_in = []
        \<and> findOne_email d email_in = None
        \<and> (case roleId_in of None \<Rightarrow> findOne_role d ROLES_PSR
             | Some n \<Rightarrow> if n = 0 then findOne_role d ROLES_PSR else findOne_role d n) = Some r
        \<and> findOne_id d (rt_uuid rt) = None \<and> length email_in \<le> 255
        \<and> (case phone_in of None \<Rightarrow> True | Some p \<Rightarrow> length p \<le> 30)
      \<longrightarrow> snd (register_route V B rt email_in pw name phone_in roleId_in d) =
            d\<lparr>users := users d @
              [\<lparr>user_id = rt_uuid rt, email = email_in,
                password_hash =
                  (if prefix ''$2b$'' pw then pw else bcrypt_hash B pw 10 (rt_salt rt)),
                fullName = name, phone = phone_in, role = r\<rparr>]\<rparr>)
   \<and> (snd (register_route V B rt email_in pw name phone_in roleId_in d) = d
        \<and> (\<forall>body. fst (register_route V B rt email_in pw name phone_in roleId_in d)
                     \<noteq> Respond 201 body)
      \<or> (\<exists>user. snd (register_route V B rt email_in pw name phone_in roleId_in d)
                    = d\<lparr>users := users d @ [user]\<rparr>
            \<and> email user = email_in
            \<and> password_hash user =
                (if prefix ''$2b$'' pw then pw else bcrypt_hash B pw 10 (rt_salt rt))))
   \<and> (authMiddleware (rt_env rt) (rt_now rt) authHeader d = Continue u
        \<and> findOne_id d (req_user_id u) = Some account
        \<and> bcrypt_compare B currentPassword (password_hash account)
        \<and> currentPassword \<noteq> [] \<and> pw \<noteq> currentPassword \<and> strength_policy pw
      \<longrightarrow> change_password_route B rt authHeader currentPassword pw d =
            (Respond 200 (JObject [(''message'', JString ''Password changed successfully'')]),
             save_password B rt d (req_user_id u) pw)
          \<and> findOne_id (snd (change_password_route B rt authHeader currentPassword pw d))
               (req_user_id u)
             = Some (account\<lparr>password_hash :=
                 (if prefix ''$2b$'' pw then pw else bcrypt_hash B pw 10 (rt_salt rt))\<rparr>))
   \<and> (\<forall>body. fst (change_password_route B rt authHeader currentPassword pw d) = Respond 200 body
        \<longrightarrow> (\<exists>u user. authMiddleware (rt_env rt) (rt_now rt) authHeader d = Continue u
              \<and> findOne_id d (req_user_id u) = Some user
              \<and> findOne_id (snd (change_password_route B rt authHeader currentPassword pw d))
                   (req_user_id u)
                 = Some (user\<lparr>password_hash :=
                     (if prefix ''$2b$'' pw then pw else bcrypt_hash B pw 10 (rt_salt rt))\<rparr>)))"
proof -
  have hook: "hashPassword B salt pw =
     (if pw = [] \<or> prefix ''$2b$'' pw then pw else bcrypt_hash B pw 10 salt)"
    by (simp add: hashPassword_def)
  have persists: "registerValidators V email_in pw name phone_in roleId_in = []
        \<and> findOne_email d email_in = None
        \<and> (case roleId_in of None \<Rightarrow> findOne_role d ROLES_PSR
             | Some n \<Rightarrow> if n = 0 then findOne_role d ROLES_PSR else findOne_role d n) = Some r
        \<and> findOne_id d (rt_uuid rt) = None \<and> length email_in \<le> 255
        \<and> (case phone_in of None \<Rightarrow> True | Some p \<Rightarrow> length p \<le> 30)
      \<longrightarrow> snd (register_route V B rt email_in pw name phone_in roleId_in d) =
            d\<lparr>users := users d @
              [\<lparr>user_id = rt_uuid rt, email = email_in,
                password_hash =
                  (if prefix ''$2b$'' pw then pw else bcrypt_hash B pw 10 (rt_salt rt)),
                fullName = name, phone = phone_in, role = r\<rparr>]\<rparr>"
  proof (intro impI, elim conjE)
    assume valid: "registerValidators V email_in pw name phone_in roleId_in = []"
      and fresh: "findOne_email d email_in = None"
      and resolved: "(case roleId_in of None \<Rightarrow> findOne_role d ROLES_PSR
             | Some n \<Rightarrow> if n = 0 then findOne_role d ROLES_PSR else findOne_role d n) = Some r"
      and uuid: "findOne_id d (rt_uuid rt) = None"
      and len: "length email_in \<le> 255"
      and plen: "case phone_in of None \<Rightarrow> True | Some p \<Rightarrow> length p \<le> 30"
    from registerValidators_empty [OF valid] have pw: "pw \<noteq> []" and "length name \<le> 120"
      by simp_all
    with fresh uuid len plen
    have "save_new B rt d (Some email_in) pw name phone_in (Some r) =
       Inr (\<lparr>user_id = rt_uuid rt, email = email_in,
              password_hash = hashPassword B (rt_salt rt) pw,
              fullName = name, phone = phone_in, role = r\<rparr>,
            d\<lparr>users := users d @
              [\<lparr>user_id = rt_uuid rt, email = email_in,
                password_hash = hashPassword B (rt_salt rt) pw,
                fullName = name, phone = phone_in, role = r\<rparr>]\<rparr>)"
      by (intro save_new_ok)
    with valid fresh resolved
    have "snd (register_route V B rt email_in pw name phone_in roleId_in d) =
        d\<lparr>users := users d @
              [\<lparr>user_id = rt_uuid rt, email = email_in,
                password_hash = hashPassword B (rt_salt rt) pw,
                fullName = name, phone = phone_in, role = r\<rparr>]\<rparr>"
      unfolding register_route_def by (intro register_persists)
    then show "snd (register_route V B rt email_in pw name phone_in roleId_in d) =
            d\<lparr>users := users d @
              [\<lparr>user_id = rt_uuid rt, email = email_in,
                password_hash =
                  (if prefix ''$2b$'' pw then pw else bcrypt_hash B pw 10 (rt_salt rt)),
                fullName = name, phone = phone_in, role = r\<rparr>]\<rparr>"
      by (simp only: hashPassword_nonempty [OF pw])
  qed
  have changes: "authMiddleware (rt_env rt) (rt_now rt) authHeader d = Continue u
        \<and> findOne_id d (req_user_id u) = Some account
        \<and> bcrypt_compare B currentPassword (password_hash account)
        \<and> currentPassword \<noteq> [] \<and> pw \<noteq> currentPassword \<and> strength_policy pw
      \<longrightarrow> change_password_route B rt authHeader currentPassword pw d =
            (Respond 200 (JObject [(''message'', JString ''Password changed successfully'')]),
             save_password B rt d (req_user_id u) pw)
          \<and> findOne_id (snd (change_password_route B rt authHeader currentPassword pw d))
               (req_user_id u)
             = Some (account\<lparr>password_hash :=
                 (if prefix ''$2b$'' pw then pw else bcrypt_hash B pw 10 (rt_salt rt))\<rparr>)"
  proof (intro impI, elim conjE)
    assume auth: "authMiddleware (rt_env rt) (rt_now rt) authHeader d = Continue u"
      and f: "findOne_id d (req_user_id u) = Some account"
      and cur: "bcrypt_compare B currentPassword (password_hash account)"
      and ok: "currentPassword \<noteq> []" "pw \<noteq> currentPassword" "strength_policy pw"
    from ok have v: "changePasswordValidators currentPassword pw = []"
      by (simp add: changePasswordValidators_empty_iff)
    from ok(3) have pw: "pw \<noteq> []"
      by (auto simp: strength_policy_def)
    from change_password_route_authenticated [OF auth f cur, of pw] v
    have route: "change_password_route B rt authHeader currentPassword pw d =
            (Respond 200 (JObject [(''message'', JString ''Password changed successfully'')]),
             save_password B rt d (req_user_id u) pw)"
      by simp
    from findOne_id_save_password [OF f, of B rt pw]
    have "findOne_id (save_password B rt d (req_user_id u) pw) (req_user_id u)
             = Some (account\<lparr>password_hash :=
                 (if prefix ''$2b$'' pw then pw else bcrypt_hash B pw 10 (rt_salt rt))\<rparr>)"
      by (simp only: hashPassword_nonempty [OF pw])
    with route show "change_password_route B rt authHeader currentPassword pw d =
            (Respond 200 (JObject [(''message'', JString ''Password changed successfully'')]),
             save_password B rt d (req_user_id u) pw)
          \<and> findOne_id (snd (change_password_route B rt authHeader currentPassword pw d))
               (req_user_id u)
             = Some (account\<lparr>password_hash :=
                 (if prefix ''$2b$'' pw then pw else bcrypt_hash B pw 10 (rt_salt rt))\<rparr>)"
      by simp
  qed
  obtain res d' where r: "register_route V B rt email_in pw name phone_in roleId_in d = (res, d')"
    by (cases "register_route V B rt email_in pw name phone_in roleId_in d")
  from r have "(d' = d \<and> (\<forall>body. res \<noteq> Respond 201 body))
     \<or> (registerValidators V email_in pw name phone_in roleId_in = []
         \<and> (\<exists>user. d' = d\<lparr>users := users d @ [user]\<rparr> \<and> email user = email_in
               \<and> password_hash user = hashPassword B (rt_salt rt) pw))"
    unfolding register_route_def by (rule register_cases)
  then have reg: "(d' = d \<and> (\<forall>body. res \<noteq> Respond 201 body))
     \<or> (\<exists>user. d' = d\<lparr>users := users d @ [user]\<rparr> \<and> email user = email_in
           \<and> password_hash user =
               (if prefix ''$2b$'' pw then pw else bcrypt_hash B pw 10 (rt_salt rt)))"
    using registerValidators_password [of V email_in pw name phone_in roleId_in]
      hashPassword_nonempty [of pw B "rt_salt rt"]
    by auto
  have change: "\<forall>body. fst (change_password_route B rt authHeader currentPassword pw d) = Respond 200 body
        \<longrightarrow> (\<exists>u user. authMiddleware (rt_env rt) (rt_now rt) authHeader d = Continue u
              \<and> findOne_id d (req_user_id u) = Some user
              \<and> findOne_id (snd (change_password_route B rt authHeader currentPassword pw d))
                   (req_user_id u)
                 = Some (user\<lparr>password_hash :=
                     (if prefix ''$2b$'' pw then pw else bcrypt_hash B pw 10 (rt_salt rt))\<rparr>))"
  proof (intro allI impI)
    fix body
    assume ok: "fst (change_password_route B rt authHeader currentPassword pw d) = Respond 200 body"
    obtain d2 where c: "change_password_route B rt authHeader currentPassword pw d
        = (Respond 200 body, d2)"
      using ok by (cases "change_password_route B rt authHeader currentPassword pw d") simp
    from change_password_route_200 [OF c] obtain u
      where v: "changePasswordValidators currentPassword pw = []"
        and auth: "authMiddleware (rt_env rt) (rt_now rt) authHeader d = Continue u"
        and d2: "d2 = save_password B rt d (req_user_id u) pw"
      by blast
    from authMiddleware_Continue_found [OF auth] obtain user
      where f: "findOne_id d (req_user_id u) = Some user"
      by blast
    from v have "pw \<noteq> []"
      by (auto simp: changePasswordValidators_empty_iff strength_policy_def)
    then have h: "hashPassword B (rt_salt rt) pw =
        (if prefix ''$2b$'' pw then pw else bcrypt_hash B pw 10 (rt_salt rt))"
      by (rule hashPassword_nonempty)
    from findOne_id_save_password [OF f, of B rt pw] h d2 c
    have "findOne_id (snd (change_password_route B rt authHeader currentPassword pw d))
                   (req_user_id u)
                 = Some (user\<lparr>password_hash :=
                     (if prefix ''$2b$'' pw then pw else bcrypt_hash B pw 10 (rt_salt rt))\<rparr>)"
      by simp
    with auth f show "\<exists>u user. authMiddleware (rt_env rt) (rt_now rt) authHeader d = Continue u
              \<and> findOne_id d (req_user_id u) = Some user
              \<and> findOne_id (snd (change_password_route B rt authHeader currentPassword pw d))
                   (req_user_id u)
                 = Some (user\<lparr>password_hash :=
                     (if prefix ''$2b$'' pw then pw else bcrypt_hash B pw 10 (rt_salt rt))\<rparr>)"
      by blast
  qed
  from r reg have reg': "snd (register_route V B rt email_in pw name phone_in roleId_in d) = d
        \<and> (\<forall>body. fst (register_route V B rt email_in pw name phone_in roleId_in d)
                     \<noteq> Respond 201 body)
      \<or> (\<exists>user. snd (register_route V B rt email_in pw name phone_in roleId_in d)
                    = d\<lparr>users := users d @ [user]\<rparr>
            \<and> email user = email_in
            \<and> password_hash user =
                (if prefix ''$2b$'' pw then pw else bcrypt_hash B pw 10 (rt_salt rt)))"
    by simp
  from hook persists reg' changes change show ?thesis
    by (intro conjI)
qed


theorem hashPassword_skips_bcrypt_prefix_witness:
  "snd (register_route any_validator toy_bcrypt (example_rt ''production'') ''bob@x.com''
          ''$2b$abcdefg1'' ''Bob B'' None None example_db) =
     example_db\<lparr>users := users example_db @
       [\<lparr>user_id = ''u-new'', email = ''bob@x.com'', password_hash = ''$2b$abcdefg1'',
         fullName = ''Bob B'', phone = None, role = psr_role\<rparr>]\<rparr>
   \<and> findOne_id
        (snd (change_password_route toy_bcrypt (example_rt ''production'') alice_header
                ''Passw0rd!'' ''$2b$abcdefg1'' example_db)) ''u-alice''
      = Some (alice\<lparr>password_hash := ''$2b$abcdefg1''\<rparr>)
   \<and> snd (register_route any_validator toy_bcrypt (example_rt ''production'') ''bob@x.com''
          ''N3wPassword'' ''Bob B'' None None example_db) =
     example_db\<lparr>users := users example_db @
       [\<lparr>user_id = ''u-new'', email = ''bob@x.com'', password_hash = ''$2b$10$peprN3wPassword'',
         fullName = ''Bob B'', phone = None, role = psr_role\<rparr>]\<rparr>
   \<and> findOne_id
        (snd (change_password_route toy_bcrypt (example_rt ''production'') alice_header
                ''Passw0rd!'' ''N3wPassword'' example_db)) ''u-alice''
      = Some (alice\<lparr>password_hash := ''$2b$10$peprN3wPassword''\<rparr>)"
proof -
  let ?rt = "example_rt ''production''"
  have fresh: "findOne_email example_db ''bob@x.com'' = None"
    by (simp add: findOne_email_def example_db_def root_user_def alice_def)
  have resolved: "(case (None :: nat option) of None \<Rightarrow> findOne_role example_db ROLES_PSR
      | Some n \<Rightarrow> if n = 0 then findOne_role example_db ROLES_PSR else findOne_role example_db n)
      = Some psr_role"
    by (simp add: findOne_role_def ROLES_PSR_def example_db_def admin_role_def psr_role_def)
  have uuid: "findOne_id example_db (rt_uuid ?rt) = None"
    by (simp add: findOne_id_def example_db_def root_user_def alice_def example_rt_def)
  have len: "length ''bob@x.com'' \<le> 255"
    and plen: "case (None :: string option) of None \<Rightarrow> True | Some p \<Rightarrow> length p \<le> 30"
    by simp_all
  have valid1: "registerValidators any_validator ''bob@x.com'' ''$2b$abcdefg1'' ''Bob B'' None None = []"
    by (simp add: registerValidators_def check_def any_validator_def is_letter_def is_digit_def)
  have valid2: "registerValidators any_validator ''bob@x.com'' ''N3wPassword'' ''Bob B'' None None = []"
    by (simp add: registerValidators_def check_def any_validator_def is_letter_def is_digit_def)
  have strong1: "strength_policy ''$2b$abcdefg1''" and strong2: "strength_policy ''N3wPassword''"
    by (simp_all add: strength_policy_def is_letter_def is_digit_def)
  have differs: "''Passw0rd!'' \<noteq> []" "''$2b$abcdefg1'' \<noteq> ''Passw0rd!''"
      "''N3wPassword'' \<noteq> ''Passw0rd!''"
    by simp_all
  have authd: "authMiddleware (rt_env ?rt) (rt_now ?rt) alice_header example_db
      = Continue alice_req_user"
    by (rule alice_authenticated)
  note t1 = hashPassword_skips_bcrypt_prefix
    [where B = toy_bcrypt and salt = "''pepr''" and pw = "''$2b$abcdefg1''" and rt = ?rt
       and V = any_validator and email_in = "''bob@x.com''" and name = "''Bob B''"
       and phone_in = None and roleId_in = None and d = example_db and r = psr_role
       and authHeader = alice_header and currentPassword = "''Passw0rd!''"
       and u = alice_req_user and account = alice]
  note t2 = hashPassword_skips_bcrypt_prefix
    [where B = toy_bcrypt and salt = "''pepr''" and pw = "''N3wPassword''" and rt = ?rt
       and V = any_validator and email_in = "''bob@x.com''" and name = "''Bob B''"
       and phone_in = None and roleId_in = None and d = example_db and r = psr_role
       and authHeader = alice_header and currentPassword = "''Passw0rd!''"
       and u = alice_req_user and account = alice]
  from t1 [THEN conjunct2, THEN conjunct1] valid1 fresh resolved uuid len plen
  have "snd (register_route any_validator toy_bcrypt ?rt ''bob@x.com''
          ''$2b$abcdefg1'' ''Bob B'' None None example_db) =
     example_db\<lparr>users := users example_db @
       [\<lparr>user_id = rt_uuid ?rt, email = ''bob@x.com'',
         password_hash = (if prefix ''$2b$'' ''$2b$abcdefg1'' then ''$2b$abcdefg1''
            else bcrypt_hash toy_bcrypt ''$2b$abcdefg1'' 10 (rt_salt ?rt)),
         fullName = ''Bob B'', phone = None, role = psr_role\<rparr>]\<rparr>"
    by blast
  then have a: "snd (register_route any_validator toy_bcrypt ?rt ''bob@x.com''
          ''$2b$abcdefg1'' ''Bob B'' None None example_db) =
     example_db\<lparr>users := users example_db @
       [\<lparr>user_id = ''u-new'', email = ''bob@x.com'', password_hash = ''$2b$abcdefg1'',
         fullName = ''Bob B'', phone = None, role = psr_role\<rparr>]\<rparr>"
    by (simp add: example_rt_def)
  from t1 [THEN conjunct2, THEN conjunct2, THEN conjunct2, THEN conjunct1]
    authd alice_found alice_password differs strong1
  have "findOne_id
        (snd (change_password_route toy_bcrypt ?rt alice_header
                ''Passw0rd!'' ''$2b$abcdefg1'' example_db)) (req_user_id alice_req_user)
      = Some (alice\<lparr>password_hash := (if prefix ''$2b$'' ''$2b$abcdefg1'' then ''$2b$abcdefg1''
            else bcrypt_hash toy_bcrypt ''$2b$abcdefg1'' 10 (rt_salt ?rt))\<rparr>)"
    by blast
  then have b: "findOne_id
        (snd (change_password_route toy_bcrypt ?rt alice_header
                ''Passw0rd!'' ''$2b$abcdefg1'' example_db)) ''u-alice''
      = Some (alice\<lparr>password_hash := ''$2b$abcdefg1''\<rparr>)"
    by (simp add: alice_req_user_def)
  from t2 [THEN conjunct2, THEN conjunct1] valid2 fresh resolved uuid len plen
  have "snd (register_route any_validator toy_bcrypt ?rt ''bob@x.com''
          ''N3wPassword'' ''Bob B'' None None example_db) =
     example_db\<lparr>users := users example_db @
       [\<lparr>user_id = rt_uuid ?rt, email = ''bob@x.com'',
         password_hash = (if prefix ''$2b$'' ''N3wPassword'' then ''N3wPassword''
            else bcrypt_hash toy_bcrypt ''N3wPassword'' 10 (rt_salt ?rt)),
         fullName = ''Bob B'', phone = None, role = psr_role\<rparr>]\<rparr>"
    by blast
  then have c: "snd (register_route any_validator toy_bcrypt ?rt ''bob@x.com''
          ''N3wPassword'' ''Bob B'' None None example_db) =
     example_db\<lparr>users := users example_db @
       [\<lparr>user_id = ''u-new'', email = ''bob@x.com'', password_hash = ''$2b$10$peprN3wPassword'',
         fullName = ''Bob B'', phone = None, role = psr_role\<rparr>]\<rparr>"
    by (simp add: example_rt_def toy_bcrypt_def)
  from t2 [THEN conjunct2, THEN conjunct2, THEN conjunct2, THEN conjunct1]
    authd alice_found alice_password differs strong2
  have "findOne_id
        (snd (change_password_route toy_bcrypt ?rt alice_header
                ''Passw0rd!'' ''N3wPassword'' example_db)) (req_user_id alice_req_user)
      = Some (alice\<lparr>password_hash := (if prefix ''$2b$'' ''N3wPassword'' then ''N3wPassword''
            else bcrypt_hash toy_bcrypt ''N3wPassword'' 10 (rt_salt ?rt))\<rparr>)"
    by blast
  then have d: "findOne_id
        (snd (change_password_route toy_bcrypt ?rt alice_header
                ''Passw0rd!'' ''N3wPassword'' example_db)) ''u-alice''
      = Some (alice\<lparr>password_hash := ''$2b$10$peprN3wPassword''\<rparr>)"
    by (simp add: alice_req_user_def example_rt_def toy_bcrypt_def)
  from a b c d show ?thesis
    by (intro conjI)
qed

end
